theory Spec2Isabelle
  imports Complex_Main "HOL-Library.Word"
begin

section \<open>JavaScript strings\<close>

text \<open>
  The two handlers of \<^verbatim>\<open>src/index.js\<close> (\<^verbatim>\<open>getDashboardPrompt\<close> and
  \<^verbatim>\<open>getSummaryAnalysis\<close>) compute on JavaScript strings, which are sequences of
  16-bit code units. A string of the program is a list of 16-bit words here; \<open>S\<close> reads
  an ASCII literal of the source as such a list.
\<close>

type_synonym jsstring = "16 word list"

definition S :: "string \<Rightarrow> jsstring" where
  "S cs = map of_char cs"

text \<open>
  \<^verbatim>\<open>${i + 1}\<close> in a template literal: the decimal digits of an array index plus one.
\<close>

function decimal :: "nat \<Rightarrow> jsstring" where
  "decimal n = (if n < 10 then [of_nat (48 + n)] else decimal (n div 10) @ [of_nat (48 + n mod 10)])"
  by pat_completeness auto
termination
  by (relation "measure id") auto

text \<open>
  \<^verbatim>\<open>${x}\<close> for a property that holds a string or is absent: an absent property reads
  as \<^verbatim>\<open>undefined\<close>, which a template literal prints as the word "undefined".
\<close>

definition template :: "jsstring option \<Rightarrow> jsstring" where
  "template x = (case x of None \<Rightarrow> S ''undefined'' | Some s \<Rightarrow> s)"

text \<open>\<^verbatim>\<open>Array.prototype.join\<close> on an array of strings.\<close>

fun join :: "jsstring \<Rightarrow> jsstring list \<Rightarrow> jsstring" where
  "join sep [] = []"
| "join sep [x] = x"
| "join sep (x # y # ys) = x @ sep @ join sep (y # ys)"

text \<open>
  \<^verbatim>\<open>key.split('-')\<close>: splitting at every occurrence of a one-unit separator. The
  result always has at least one piece (the last equation's empty case cannot occur).
\<close>

fun split_at :: "16 word \<Rightarrow> jsstring \<Rightarrow> jsstring list" where
  "split_at sep [] = [[]]"
| "split_at sep (c # cs) =
     (if c = sep then [] # split_at sep cs
      else (case split_at sep cs of p # ps \<Rightarrow> (c # p) # ps | [] \<Rightarrow> [[c]]))"

text \<open>
  The character class \<^verbatim>\<open>\s\<close> of a JavaScript regular expression: the white space and
  line terminator code units of ECMAScript.
\<close>

definition is_space :: "16 word \<Rightarrow> bool" where
  "is_space c \<longleftrightarrow>
     c \<in> {0x09, 0x0A, 0x0B, 0x0C, 0x0D, 0x20, 0xA0, 0x1680, 0x2028, 0x2029, 0x202F,
          0x205F, 0x3000, 0xFEFF}
     \<or> (0x2000 \<le> c \<and> c \<le> 0x200A)"

text \<open>
  \<^verbatim>\<open>generatedText.split(/\s+/)\<close>: the pieces between maximal runs of white space.
  As in JavaScript, text that starts (or ends) with white space has an empty first
  (or last) piece, and the empty text has the one piece \<^verbatim>\<open>''\<close>.
\<close>

function split_ws :: "jsstring \<Rightarrow> jsstring list" where
  "split_ws s =
     (let w = takeWhile (\<lambda>c. \<not> is_space c) s;
          r = dropWhile (\<lambda>c. \<not> is_space c) s
      in if r = [] then [w] else w # split_ws (dropWhile is_space r))"
  by pat_completeness auto
termination
proof (relation "measure length")
  show "wf (measure length)" by simp
next
  fix s :: jsstring and w r
  assume r: "r = dropWhile (\<lambda>c. \<not> is_space c) s" and ne: "r \<noteq> []"
  from ne obtain c cs where rc: "r = c # cs" by (cases r) auto
  have "dropWhile (\<lambda>c. \<not> is_space c) s = c # cs" using r rc by simp
  then have "is_space c" unfolding dropWhile_eq_Cons_conv by blast
  then have "length (dropWhile is_space r) \<le> length cs" using rc
    by (simp add: length_dropWhile_le)
  moreover have "length r \<le> length s" using r by (simp add: length_dropWhile_le)
  ultimately show "(dropWhile is_space r, s) \<in> measure length" using rc by simp
qed

declare decimal.simps [simp del] split_ws.simps [simp del]

section \<open>JavaScript numbers\<close>

text \<open>
  A Number is an IEEE 754 double: \<^verbatim>\<open>NaN\<close>, an infinity, or a finite value, held here
  as an integer mantissa \<open>m\<close> and an integer exponent \<open>e\<close> with value \<open>m * 2 ^ e\<close>. A
  double has \<open>\<bar>m\<bar> < 2 ^ 53\<close> and \<open>- 1074 \<le> e \<le> 971\<close>. An intensity that is absent from its
  entry becomes \<^verbatim>\<open>NaN\<close> in the subtraction and is held as \<open>NaN\<close>.
\<close>

datatype jsnumber = NaN | PlusInfinity | MinusInfinity | Finite int int

definition number_value :: "int \<Rightarrow> int \<Rightarrow> rat" where
  "number_value m e = of_int m * 2 powi e"

function bit_length :: "nat \<Rightarrow> nat" where
  "bit_length n = (if n = 0 then 0 else Suc (bit_length (n div 2)))"
  by pat_completeness auto
termination
  by (relation "measure id") auto

declare bit_length.simps [simp del]

text \<open>
  Rounding a magnitude to the 53 bits of a double, to nearest and on a tie to the even
  mantissa: the result is the mantissa kept and the number of bits dropped.
\<close>

definition round_to_53_bits :: "nat \<Rightarrow> nat \<times> nat" where
  "round_to_53_bits a =
     (let s = bit_length a - 53
      in if s = 0 then (a, 0)
         else (let q = a div 2 ^ s; r = a mod 2 ^ s; half = 2 ^ (s - 1)
               in (if half < r \<or> (r = half \<and> odd q) then q + 1 else q, s)))"

text \<open>
  \<^verbatim>\<open>10 - x\<close>: the exact difference \<open>M * 2 ^ E\<close>, rounded to a double. For a double \<open>x\<close>
  the difference neither overflows nor falls below the smallest exponent.
\<close>

definition tenMinus :: "jsnumber \<Rightarrow> jsnumber" where
  "tenMinus x =
     (case x of
        NaN \<Rightarrow> NaN
      | PlusInfinity \<Rightarrow> MinusInfinity
      | MinusInfinity \<Rightarrow> PlusInfinity
      | Finite m e \<Rightarrow>
          (let E = min e 0;
               M = 10 * 2 ^ nat (- E) - m * 2 ^ nat (e - E)
           in case round_to_53_bits (nat \<bar>M\<bar>) of (a, s) \<Rightarrow> Finite (sgn M * int a) (E + int s)))"

text \<open>
  \<^verbatim>\<open>Number.prototype.toFixed\<close> with one fraction digit takes the integer \<open>n\<close> for which
  \<open>n / 10\<close> is nearest to the magnitude, the larger one on a tie.
\<close>

definition nearest_tenths :: "nat \<Rightarrow> int \<Rightarrow> nat" where
  "nearest_tenths a e =
     (if 0 \<le> e then 10 * a * 2 ^ nat e
      else (20 * a + 2 ^ nat (- e)) div 2 ^ (nat (- e) + 1))"

definition at_least_1e21 :: "nat \<Rightarrow> int \<Rightarrow> bool" where
  "at_least_1e21 a e \<longleftrightarrow> 10 ^ 21 * 2 ^ nat (- e) \<le> a * 2 ^ nat e"

text \<open>
  From \<open>10 ^ 21\<close> on, \<^verbatim>\<open>toFixed\<close> returns what \<^verbatim>\<open>String(x)\<close> returns: the shortest decimal
  digits \<open>s\<close> that read back as the same double, in exponent notation. Such a double is
  an integer \<open>N\<close> of \<open>n\<close> digits. The search drops \<open>p\<close> low digits, fewer at each step; where
  the integer below and the integer above both read back as \<open>N\<close>, the nearer is taken (the
  even one on a tie), as the engines do.
\<close>

definition nearest_double :: "nat \<Rightarrow> nat" where
  "nearest_double n = (case round_to_53_bits n of (a, s) \<Rightarrow> a * 2 ^ s)"

fun shortest_digits :: "nat \<Rightarrow> nat \<Rightarrow> nat \<Rightarrow> nat \<times> nat" where
  "shortest_digits N n 0 = (N, n)"
| "shortest_digits N n (Suc p) =
     (let P = 10 ^ Suc p; lo = N div P; hi = lo + 1;
          lo_ok = (nearest_double (lo * P) = N);
          hi_ok = (nearest_double (hi * P) = N);
          s = (if lo_ok \<and> hi_ok
               then (if N - lo * P < hi * P - N then lo
                     else if hi * P - N < N - lo * P then hi
                     else if even lo then lo else hi)
               else if lo_ok then lo else hi)
      in if lo_ok \<or> hi_ok
         then (if s = 10 ^ (n - Suc p) then (1, n + 1) else (s, n))
         else shortest_digits N n p)"

definition exponent_form :: "nat \<times> nat \<Rightarrow> jsstring" where
  "exponent_form sn =
     (case sn of (s, n) \<Rightarrow>
        (case decimal s of
           [] \<Rightarrow> []
         | d # ds \<Rightarrow> (if ds = [] then [d] else d # S ''.'' @ ds) @ S ''e+'' @ decimal (n - 1)))"

definition toString_large :: "nat \<Rightarrow> jsstring" where
  "toString_large N = (let n = length (decimal N) in exponent_form (shortest_digits N n (n - 1)))"

text \<open>
  \<^verbatim>\<open>x.toFixed(1)\<close>. Below \<open>10 ^ 21\<close> the digits of \<open>n\<close> are printed, with a leading zero
  when there is only one, and the point before the last digit; a negative number keeps
  its sign also when it rounds to zero.
\<close>

definition toFixed1 :: "jsnumber \<Rightarrow> jsstring" where
  "toFixed1 y =
     (case y of
        NaN \<Rightarrow> S ''NaN''
      | PlusInfinity \<Rightarrow> S ''Infinity''
      | MinusInfinity \<Rightarrow> S ''-Infinity''
      | Finite m e \<Rightarrow>
          (let a = nat \<bar>m\<bar>; sign = (if m < 0 then S ''-'' else [])
           in if at_least_1e21 a e then sign @ toString_large (a * 2 ^ nat e)
              else (let digits = decimal (nearest_tenths a e);
                        padded = (if length digits \<le> 1 then S ''0'' @ digits else digits)
                    in sign @ butlast padded @ S ''.'' @ [last padded])))"

section \<open>Requests and responses\<close>

text \<open>
  An entry of \<^verbatim>\<open>prioritizedVirtues\<close>. The code reads three properties of it:
  \<^verbatim>\<open>virtueId\<close>, \<^verbatim>\<open>virtue\<close> (the name, \<open>None\<close> when the entry has no such property;
  the code guards it with \<^verbatim>\<open>||\<close> against being absent or empty) and
  \<^verbatim>\<open>defectIntensity\<close>, a Number. The identifier is only handed to \<^verbatim>\<open>==\<close>, so its
  type is left open (\<open>'i\<close>).
\<close>

record 'i virtue_entry =
  virtueId :: 'i
  virtue :: "jsstring option"
  defectIntensity :: jsnumber

text \<open>An entry of \<^verbatim>\<open>analyses\<close> (summary endpoint).\<close>

record analysis_entry =
  analysisVirtue :: "jsstring option"
  analysis :: "jsstring option"

text \<open>
  \<^verbatim>\<open>isFirstTime\<close> in the body: the property is absent, is \<^verbatim>\<open>null\<close>, or is a boolean.
  The three are kept apart because the default of the destructuring
  (\<^verbatim>\<open>isFirstTime = false\<close>) replaces an absent property only.
\<close>

datatype first_time = Undefined | Null | Boolean bool

text \<open>
  The body of a dashboard request. For the first four properties \<open>None\<close> is an absent
  or \<^verbatim>\<open>null\<close> property, which the code treats alike (\<^verbatim>\<open>||\<close>, \<^verbatim>\<open>?.\<close> and the test
  \<^verbatim>\<open>stageProgress ?\<close>). \<^verbatim>\<open>stageProgress\<close> is held as the list that \<^verbatim>\<open>Object.entries\<close>
  returns: keys with their status, in enumeration order.
\<close>

record 'i dashboard_body =
  assessmentSummary :: "jsstring option"
  prioritizedVirtues :: "'i virtue_entry list option"
  stageProgress :: "(jsstring \<times> jsstring) list option"
  recentProgress :: "jsstring option"
  isFirstTime :: first_time

text \<open>
  A property that the summary endpoint tests with \<^verbatim>\<open>Array.isArray\<close>: absent,
  present but not an array, or an array.
\<close>

datatype 'a array_field = Missing | NotArray | IsArray "'a list"

record 'i summary_body =
  analyses :: "analysis_entry array_field"
  summaryVirtues :: "'i virtue_entry array_field"

text \<open>
  \<^verbatim>\<open>req.body\<close> as the validation sees it: falsy (\<^verbatim>\<open>!req.body\<close>: undefined, null, an
  empty string, ...), truthy but not of type \<^verbatim>\<open>'object'\<close>, or an object.
\<close>

datatype 'b req_body = Falsy | NonObject | Object 'b

record 'b request =
  httpMethod :: jsstring
  body :: "'b req_body"

datatype payload =
    Empty
  | Error (error: jsstring)
  | Prompt (prompt: jsstring) (model: jsstring) (success: bool)
  | Summary (summary: jsstring) (model: jsstring) (success: bool)

datatype response = Response (statusCode: nat) (sent: payload)

section \<open>The generation service\<close>

text \<open>
  What \<^verbatim>\<open>generateContent\<close> resolves to, as far as the handlers read it:
  \<^verbatim>\<open>response.candidates[0].content.parts[0].text\<close>, where \<^verbatim>\<open>candidates\<close> and
  \<^verbatim>\<open>content\<close> may be absent, the arrays may be empty and a part may carry no text.
\<close>

datatype part = Part (partText: "jsstring option")

datatype content = Content (parts: "part list")

datatype candidate = Candidate (content: "content option")

datatype generate_result = Result (candidates: "candidate list option")

datatype outcome = Rejects jsstring | Resolves generate_result

text \<open>
  The errors that reach the \<^verbatim>\<open>catch\<close> of the loop body: a rejection of the service
  (with its message), the handler's own \<^verbatim>\<open>new Error('Invalid response format ...')\<close>,
  and the \<^verbatim>\<open>TypeError\<close> of reading a property of \<^verbatim>\<open>undefined\<close>.
\<close>

datatype gen_error = ServiceError jsstring | InvalidResponseFormat | TypeError

text \<open>The lines the handlers write to the console, in order.\<close>

datatype log_event =
    Trying jsstring
  | Succeeded jsstring
  | Failed jsstring gen_error
  | AllModelsFailed "gen_error option"

text \<open>
  What a handler takes from outside: \<^verbatim>\<open>v.virtueId == virtueId\<close>, the abstract equality
  of an identifier (of whatever type) with a key token, and
  \<^verbatim>\<open>getGenerativeModel({model, ...}).generateContent(prompt)\<close> with the handler's fixed
  generation configuration and safety settings. A rejection carries an error with a
  message.
\<close>

record 'i runtime =
  looseEquals :: "'i \<Rightarrow> jsstring \<Rightarrow> bool"
  generateContent :: "jsstring \<Rightarrow> jsstring \<Rightarrow> outcome"


section \<open>The model fallback loop\<close>

text \<open>
  Both handlers try the same list of model names, in this order.
\<close>

definition modelNames :: "jsstring list" where
  "modelNames =
     [S ''gemini-2.5-flash-lite'', S ''gemini-2.0-flash-lite'', S ''gemini-1.5-flash-lite'',
      S ''gemini-1.5-flash'', S ''gemini-pro'']"

text \<open>
  The variables the loop assigns: the text (\<^verbatim>\<open>promptText\<close> or \<^verbatim>\<open>summaryText\<close>),
  \<^verbatim>\<open>lastError\<close>, \<^verbatim>\<open>successfulModel\<close>, and the console.
\<close>

record 't exec_state =
  generated :: 't
  lastError :: "gen_error option"
  successfulModel :: jsstring
  console :: "log_event list"

text \<open>
  \<^verbatim>\<open>for (const modelName of modelNames) { try { ... break; } catch (error) { lastError =
  error; continue; } }\<close>. The argument \<open>attempt\<close> is the \<^verbatim>\<open>try\<close> block for one model
  name: \<open>Inr\<close> the text it assigns before \<^verbatim>\<open>break\<close>, or \<open>Inl\<close> the error it throws.
\<close>

fun run_models :: "(jsstring \<Rightarrow> gen_error + 't) \<Rightarrow> jsstring list \<Rightarrow> 't exec_state \<Rightarrow> 't exec_state" where
  "run_models attempt [] st = st"
| "run_models attempt (modelName # rest) st =
     (let st1 = st\<lparr>console := console st @ [Trying modelName]\<rparr>
      in case attempt modelName of
           Inr generatedText \<Rightarrow>
             st1\<lparr>generated := generatedText, successfulModel := modelName,
                 console := console st1 @ [Succeeded modelName]\<rparr>
         | Inl e \<Rightarrow>
             run_models attempt rest
               (st1\<lparr>lastError := Some e, console := console st1 @ [Failed modelName e]\<rparr>))"

text \<open>The model names on which \<^verbatim>\<open>generateContent\<close> was called, read off the console.\<close>

fun invoked :: "log_event list \<Rightarrow> jsstring list" where
  "invoked [] = []"
| "invoked (Trying m # evs) = m # invoked evs"
| "invoked (_ # evs) = invoked evs"

text \<open>\<^verbatim>\<open>successfulModel || 'fallback'\<close>.\<close>

definition model_or_fallback :: "jsstring \<Rightarrow> jsstring" where
  "model_or_fallback successful = (if successful = [] then S ''fallback'' else successful)"

text \<open>\<^verbatim>\<open>x || d\<close> for a string property that may be absent: absent and empty are falsy.\<close>

definition or_else :: "jsstring option \<Rightarrow> jsstring \<Rightarrow> jsstring" where
  "or_else x d = (case x of None \<Rightarrow> d | Some s \<Rightarrow> if s = [] then d else s)"

section \<open>getDashboardPrompt\<close>

subsection \<open>Building the prompt\<close>

text \<open>
  \<^verbatim>\<open>`${i + 1}. ${v.virtue} (Score: ${(10 - v.defectIntensity).toFixed(1)})`\<close>
\<close>

definition virtue_line :: "nat \<Rightarrow> 'i virtue_entry \<Rightarrow> jsstring" where
  "virtue_line i v =
     decimal (i + 1) @ S ''. '' @ template (virtue v) @ S '' (Score: '' @
     toFixed1 (tenMinus (defectIntensity v)) @ S '')''"

definition virtueList :: "'i virtue_entry list option \<Rightarrow> jsstring" where
  "virtueList pv =
     (case pv of
        None \<Rightarrow> S ''No assessment data available''
      | Some vs \<Rightarrow>
          (let joined = join (S ''\<newline>'') (map (\<lambda>(i, v). virtue_line i v) (enumerate 0 vs))
           in if joined = [] then S ''No assessment data available'' else joined))"

text \<open>
  \<^verbatim>\<open>stage == '1' ? 'Dismantling' : stage == '2' ? 'Building' : 'Practicing'\<close>, where
  \<^verbatim>\<open>stage\<close> is the second piece of the key, \<^verbatim>\<open>undefined\<close> when the key has no hyphen.
\<close>

definition stageName :: "jsstring option \<Rightarrow> jsstring" where
  "stageName stage =
     (if stage = Some (S ''1'') then S ''Dismantling''
      else if stage = Some (S ''2'') then S ''Building''
      else S ''Practicing'')"

text \<open>
  \<^verbatim>\<open>const [virtueId, stage] = key.split('-')\<close>: the key is split at every hyphen and
  the first two pieces are taken. \<^verbatim>\<open>split\<close> never returns an empty array, so there
  always is a first piece (the case \<open>[]\<close> does not occur); the second is
  \<^verbatim>\<open>undefined\<close> when the key has no hyphen.
\<close>

definition key_virtueId :: "jsstring \<Rightarrow> jsstring" where
  "key_virtueId key = (case split_at 0x2D key of [] \<Rightarrow> [] | t # _ \<Rightarrow> t)"

definition key_stage :: "jsstring \<Rightarrow> jsstring option" where
  "key_stage key = (case split_at 0x2D key of _ # s # _ \<Rightarrow> Some s | _ \<Rightarrow> None)"

text \<open>
  \<^verbatim>\<open>prioritizedVirtues?.find(v => v.virtueId == virtueId)\<close>: the first entry whose
  identifier equals the token, if the list is there and has one.
\<close>

definition find_virtue ::
    "'i runtime \<Rightarrow> 'i virtue_entry list option \<Rightarrow> jsstring \<Rightarrow> 'i virtue_entry option" where
  "find_virtue rt pv token =
     (case pv of None \<Rightarrow> None | Some vs \<Rightarrow> find (\<lambda>v. looseEquals rt (virtueId v) token) vs)"

text \<open>
  The body of the \<^verbatim>\<open>map\<close> over \<^verbatim>\<open>Object.entries(stageProgress)\<close>, which returns
  \<^verbatim>\<open>`${virtue?.virtue || 'Unknown'} - ${stageName}: ${status}`\<close>.
\<close>

definition progress_line ::
    "'i runtime \<Rightarrow> 'i virtue_entry list option \<Rightarrow> jsstring \<times> jsstring \<Rightarrow> jsstring" where
  "progress_line rt pv entry =
     (case entry of (key, status) \<Rightarrow>
        or_else (Option.bind (find_virtue rt pv (key_virtueId key)) virtue) (S ''Unknown'') @
        S '' - '' @ stageName (key_stage key) @ S '': '' @ status)"

definition progressSummary :: "'i runtime \<Rightarrow> 'i dashboard_body \<Rightarrow> jsstring" where
  "progressSummary rt b =
     (case stageProgress b of
        None \<Rightarrow> S ''No progress data available''
      | Some entries \<Rightarrow> join (S ''\<newline>'') (map (progress_line rt (prioritizedVirtues b)) entries))"

definition recentUpdate :: "'i dashboard_body \<Rightarrow> jsstring" where
  "recentUpdate b = or_else (recentProgress b) (S ''No recent updates'')"

text \<open>
  \<^verbatim>\<open>isFirstTime = false\<close> in the destructuring gives \<^verbatim>\<open>false\<close> for an absent property
  and leaves \<^verbatim>\<open>null\<close> as it is. \<open>firstTime\<close> is the truth value of the variable, as the
  test \<^verbatim>\<open>isFirstTime ? ... : ...\<close> reads it; \<open>firstTimeText\<close> is what \<^verbatim>\<open>${isFirstTime}\<close>
  prints.
\<close>

definition firstTime :: "'i dashboard_body \<Rightarrow> bool" where
  "firstTime b = (case isFirstTime b of Undefined \<Rightarrow> False | Null \<Rightarrow> False | Boolean f \<Rightarrow> f)"

definition firstTimeText :: "'i dashboard_body \<Rightarrow> jsstring" where
  "firstTimeText b =
     (case isFirstTime b of
        Undefined \<Rightarrow> S ''false''
      | Null \<Rightarrow> S ''null''
      | Boolean f \<Rightarrow> if f then S ''true'' else S ''false'')"

text \<open>The fixed text of the prompt template, between its placeholders.\<close>

definition dashboard_prompt_intro :: jsstring where
  "dashboard_prompt_intro =
     S ''\<newline>'' @
     S ''As a virtue development coach, provide personalized next-step guidance for a user viewing their virtue dashboard. Use warm, encouraging language with '' @ [0x22] @ S ''you'' @ [0x22] @ S '' to address them directly.\<newline>'' @
     S ''\<newline>'' @
     S ''**STAGE DEFINITIONS:**\<newline>'' @
     S ''- Discovery: Complete virtue assessment to identify growth areas\<newline>'' @
     S ''- Dismantling: Recognize and work through character defects that block virtue\<newline>'' @
     S ''- Building: Develop understanding and practice of the virtue itself  \<newline>'' @
     S ''- Practicing: Apply virtue consistently in daily life (only after completing Dismantling and Building)\<newline>'' @
     S ''\<newline>'' @
     S ''**USER DATA:**\<newline>'' @
     S ''\<newline>'' @
     S ''Assessment Summary: ''"

definition dashboard_prompt_virtues :: jsstring where
  "dashboard_prompt_virtues =
     S ''\<newline>'' @
     S ''\<newline>'' @
     S ''Prioritized Virtues (lowest scores need most work):\<newline>''"

definition dashboard_prompt_progress :: jsstring where
  "dashboard_prompt_progress =
     S ''\<newline>'' @
     S ''\<newline>'' @
     S ''Current Stage Progress:\<newline>''"

definition dashboard_prompt_recent :: jsstring where
  "dashboard_prompt_recent =
     S ''\<newline>'' @
     S ''\<newline>'' @
     S ''Recent Progress: ''"

definition dashboard_prompt_first_time :: jsstring where
  "dashboard_prompt_first_time =
     S ''\<newline>'' @
     S ''\<newline>'' @
     S ''First-time user: ''"

definition dashboard_prompt_rules :: jsstring where
  "dashboard_prompt_rules =
     S ''\<newline>'' @
     S ''\<newline>'' @
     S ''**GUIDANCE RULES:**\<newline>'' @
     S ''1. **PRIMARY FOCUS**: Always direct attention to the LOWEST-SCORING virtue (highest priority for development) from the prioritized list\<newline>'' @
     S ''2. If first-time/empty dashboard: Encourage starting with #1 lowest-scoring virtue's Dismantling stage\<newline>'' @
     S ''3. **Structure**: Lead with next step recommendation, then briefly acknowledge progress if relevant\<newline>'' @
     S ''4. Recommend completing all Dismantling stages before Building, or work virtue-by-virtue (Dismantling '' @ [0x2192] @ S '' Building)\<newline>'' @
     S ''5. Discourage Practicing until both Dismantling and Building are complete for that virtue\<newline>'' @
     S ''6. STRICT LIMIT: Maximum 150 words total\<newline>'' @
     S ''7. End with a specific actionable next step focusing on the lowest-scoring virtue\<newline>'' @
     S ''\<newline>'' @
     S ''**PRIORITY**: Focus on the #1 virtue (lowest score) unless it's completely finished (both Dismantling and Building completed).\<newline>'' @
     S ''\<newline>'' @
     S ''Generate a personalized, encouraging message directing them to their next virtue development step. Lead with the recommended action for the lowest-scoring virtue, keep it concise and under 150 words:''"

text \<open>
  The template literal \<^verbatim>\<open>prompt\<close>. The source builds it inside the loop, from values
  that do not change between iterations.
\<close>

definition dashboard_prompt :: "'i runtime \<Rightarrow> 'i dashboard_body \<Rightarrow> jsstring" where
  "dashboard_prompt rt b =
     dashboard_prompt_intro @ or_else (assessmentSummary b) (S ''Assessment completed'') @
     dashboard_prompt_virtues @ virtueList (prioritizedVirtues b) @
     dashboard_prompt_progress @ progressSummary rt b @
     dashboard_prompt_recent @ recentUpdate b @
     dashboard_prompt_first_time @ firstTimeText b @
     dashboard_prompt_rules"

subsection \<open>One attempt, the word limit, the fallback text\<close>

text \<open>
  \<^verbatim>\<open>const words = generatedText.split(/\s+/); if (words.length > 150) { generatedText =
  words.slice(0, 150).join(' ') + '...'; }\<close>
\<close>

definition enforce_word_limit :: "jsstring \<Rightarrow> jsstring" where
  "enforce_word_limit generatedText =
     (let words = split_ws generatedText
      in if length words > 150 then join (S '' '') (take 150 words) @ S ''...''
         else generatedText)"

text \<open>
  The \<^verbatim>\<open>try\<close> block of the dashboard loop after \<^verbatim>\<open>generateContent\<close> has settled. Reading
  \<^verbatim>\<open>parts[0].text\<close> of an empty \<^verbatim>\<open>parts\<close>, and calling \<^verbatim>\<open>split\<close> on an absent text,
  throw a \<^verbatim>\<open>TypeError\<close>.
\<close>

definition try_dashboard_model :: "outcome \<Rightarrow> gen_error + jsstring" where
  "try_dashboard_model oc =
     (case oc of
        Rejects msg \<Rightarrow> Inl (ServiceError msg)
      | Resolves r \<Rightarrow>
          (case candidates r of
             None \<Rightarrow> Inl InvalidResponseFormat
           | Some [] \<Rightarrow> Inl InvalidResponseFormat
           | Some (c # _) \<Rightarrow>
               (case content c of
                  None \<Rightarrow> Inl InvalidResponseFormat
                | Some ct \<Rightarrow>
                    (case parts ct of
                       [] \<Rightarrow> Inl TypeError
                     | p # _ \<Rightarrow>
                         (case partText p of
                            None \<Rightarrow> Inl TypeError
                          | Some generatedText \<Rightarrow> Inr (enforce_word_limit generatedText))))))"

text \<open>
  \<^verbatim>\<open>const topVirtue = prioritizedVirtues?.[0]?.virtue || 'your priority virtue'\<close> and the
  template of the fallback message.
\<close>

definition topVirtue :: "'i dashboard_body \<Rightarrow> jsstring" where
  "topVirtue b =
     or_else (case prioritizedVirtues b of None \<Rightarrow> None | Some [] \<Rightarrow> None | Some (v # _) \<Rightarrow> virtue v)
       (S ''your priority virtue'')"

definition dashboard_fallback :: "'i dashboard_body \<Rightarrow> jsstring" where
  "dashboard_fallback b =
     S ''Welcome to your virtue development journey! '' @
     (if firstTime b
      then S ''Start by working on '' @ topVirtue b @
           S '' in the Dismantling stage to begin recognizing character defects.''
      else S ''Continue your progress by focusing on the next stage of '' @ topVirtue b @ S ''.'') @
     S '' Click the stage buttons to begin your reflection.''"

subsection \<open>The handler\<close>

text \<open>
  The handler returns what it sends and what it wrote to the console. The CORS headers
  it sets on every response are left out. With the request typed as above, nothing
  outside the loop's own \<^verbatim>\<open>try\<close> throws, so the outer \<^verbatim>\<open>catch\<close> (status 500) has no
  path here.
\<close>

definition getDashboardPrompt ::
    "'i runtime \<Rightarrow> 'i dashboard_body request \<Rightarrow> response \<times> log_event list" where
  "getDashboardPrompt rt req =
     (if httpMethod req = S ''OPTIONS'' then (Response 204 Empty, [])
      else case body req of
        Falsy \<Rightarrow> (Response 400 (Error (S ''Invalid request body'')), [])
      | NonObject \<Rightarrow> (Response 400 (Error (S ''Invalid request body'')), [])
      | Object b \<Rightarrow>
          (let thePrompt = dashboard_prompt rt b;
               st = run_models (\<lambda>modelName. try_dashboard_model (generateContent rt modelName thePrompt))
                      modelNames
                      \<lparr>generated = [], lastError = None, successfulModel = [], console = []\<rparr>
           in if generated st = []
              then (Response 200 (Prompt (dashboard_fallback b) (model_or_fallback (successfulModel st)) True),
                    console st @ [AllModelsFailed (lastError st)])
              else (Response 200 (Prompt (generated st) (model_or_fallback (successfulModel st)) True),
                    console st)))"

section \<open>getSummaryAnalysis\<close>

definition priorityList :: "'i virtue_entry list \<Rightarrow> jsstring" where
  "priorityList vs = join (S ''\<newline>'') (map (\<lambda>(i, v). virtue_line i v) (enumerate 0 vs))"

definition combinedAnalyses :: "analysis_entry list \<Rightarrow> jsstring" where
  "combinedAnalyses as =
     join (S ''\<newline>\<newline>'')
       (map (\<lambda>a. S ''- '' @ template (analysisVirtue a) @ S '': '' @ template (analysis a)) as)"

definition summary_prompt_intro :: jsstring where
  "summary_prompt_intro =
     S ''\<newline>'' @
     S ''          As an expert virtuous coach who empathizes with those in recovery, synthesize the following 12 individual virtue analyses into a single, holistic summary for a practitioner to guide virtue growth. The response should be approximately 200 words. Use '' @ [0x22] @ S ''you'' @ [0x22] @ S '' familiar language to address the user directly.\<newline>'' @
     S ''\<newline>'' @
     S ''          **INPUT DATA:**\<newline>'' @
     S ''\<newline>'' @
     S ''          **1. User's Prioritized Virtue List (from highest to lowest priority for development):**\<newline>'' @
     S ''          ''"

definition summary_prompt_analyses :: jsstring where
  "summary_prompt_analyses =
     S ''\<newline>'' @
     S ''\<newline>'' @
     S ''          **2. Individual Virtue Analyses:**\<newline>'' @
     S ''          ''"

definition summary_prompt_tasks :: jsstring where
  "summary_prompt_tasks =
     S ''\<newline>'' @
     S ''\<newline>'' @
     S ''          **TASKS:**\<newline>'' @
     S ''          1.  **Identify Overarching Themes:** Analyze all 12 reports to find common patterns or root causes. For example, do issues with Honesty, Integrity, and Responsibility all point to a core challenge with accountability? Or do struggles with Patience and Self-Control indicate a broader issue with emotional regulation?\<newline>'' @
     S ''          2.  **State the Primary Growth Area:** Begin with a direct statement identifying the user's most significant area for development, referencing the top 2-3 virtues from the priority list that scored the lowest. The lower the score the greater the development need.\<newline>'' @
     S ''          3.  **Commend Strengths:** Briefly acknowledge any virtues where the user shows relative strength or balance. Virtues with scores above 7.0 can be mentioned here.\<newline>'' @
     S ''          4.  **Provide a Synthesis:** Briefly explain how the identified themes connect across multiple virtues.\<newline>'' @
     S ''          5.  **Conclude with a Strategic Recommendation:** Offer a high-level recommendation or a key question for the practitioner to focus on with the user that addresses the core theme.\<newline>'' @
     S ''          6.  Keep the entire response under 300 words.''"

definition summary_prompt :: "analysis_entry list \<Rightarrow> 'i virtue_entry list \<Rightarrow> jsstring" where
  "summary_prompt as vs =
     summary_prompt_intro @ priorityList vs @
     summary_prompt_analyses @ combinedAnalyses as @
     summary_prompt_tasks"

text \<open>
  The \<^verbatim>\<open>try\<close> block of the summary loop: the text of the first part is assigned as it
  is, also when the part carries none (\<^verbatim>\<open>undefined\<close>, here \<open>None\<close>).
\<close>

definition try_summary_model :: "outcome \<Rightarrow> gen_error + jsstring option" where
  "try_summary_model oc =
     (case oc of
        Rejects msg \<Rightarrow> Inl (ServiceError msg)
      | Resolves r \<Rightarrow>
          (case candidates r of
             None \<Rightarrow> Inl InvalidResponseFormat
           | Some [] \<Rightarrow> Inl InvalidResponseFormat
           | Some (c # _) \<Rightarrow>
               (case content c of
                  None \<Rightarrow> Inl InvalidResponseFormat
                | Some ct \<Rightarrow>
                    (case parts ct of
                       [] \<Rightarrow> Inl TypeError
                     | p # _ \<Rightarrow> Inr (partText p)))))"

text \<open>
  \<^verbatim>\<open>prioritizedVirtues.slice(0, 2).map(v => v.virtue).join(' and ')\<close> inside the fallback
  summary; \<^verbatim>\<open>join\<close> prints an absent name as the empty string.
\<close>

definition summary_fallback :: "'i virtue_entry list \<Rightarrow> jsstring" where
  "summary_fallback vs =
     S ''A full summary could not be generated at this time. Based on the data, the primary areas for development appear to be '' @
     join (S '' and '') (map (\<lambda>v. case virtue v of None \<Rightarrow> [] | Some name \<Rightarrow> name) (take 2 vs)) @
     S ''. Focusing on the root causes of challenges in these areas is a recommended next step.''"

definition invalid_summary_body :: jsstring where
  "invalid_summary_body = S ''Invalid request body: Expected analyses and prioritizedVirtues arrays.''"

text \<open>
  In the body of this endpoint the property \<^verbatim>\<open>prioritizedVirtues\<close> is the field
  \<open>summaryVirtues\<close>. \<^verbatim>\<open>!summaryText\<close> holds for the empty and for the absent text.
\<close>

definition getSummaryAnalysis ::
    "'i runtime \<Rightarrow> 'i summary_body request \<Rightarrow> response \<times> log_event list" where
  "getSummaryAnalysis rt req =
     (if httpMethod req = S ''OPTIONS'' then (Response 204 Empty, [])
      else case body req of
        Falsy \<Rightarrow> (Response 400 (Error invalid_summary_body), [])
      | NonObject \<Rightarrow> (Response 400 (Error invalid_summary_body), [])
      | Object b \<Rightarrow>
          (case analyses b of
             Missing \<Rightarrow> (Response 400 (Error invalid_summary_body), [])
           | NotArray \<Rightarrow> (Response 400 (Error invalid_summary_body), [])
           | IsArray as \<Rightarrow>
               (case summaryVirtues b of
                  Missing \<Rightarrow> (Response 400 (Error invalid_summary_body), [])
                | NotArray \<Rightarrow> (Response 400 (Error invalid_summary_body), [])
                | IsArray vs \<Rightarrow>
                    (let thePrompt = summary_prompt as vs;
                         st = run_models (\<lambda>modelName. try_summary_model (generateContent rt modelName thePrompt))
                                modelNames
                                \<lparr>generated = Some [], lastError = None, successfulModel = [], console = []\<rparr>
                     in case generated st of
                          Some (c # cs) \<Rightarrow>
                            (Response 200 (Summary (c # cs) (model_or_fallback (successfulModel st)) True),
                             console st)
                        | _ \<Rightarrow>
                            (Response 200 (Summary (summary_fallback vs) (model_or_fallback (successfulModel st)) True),
                             console st @ [AllModelsFailed (lastError st)])))))"

section \<open>The word count of the specification\<close>

text \<open>
  The specification speaks of the words of a text. A word is a maximal run of characters
  that are not white space, so the words of a text are the non-empty pieces of its split.
  This count follows the specification's wording; \<open>enforce_word_limit\<close> above counts
  all pieces, as the source does.
\<close>

definition spec_word_count :: "jsstring \<Rightarrow> nat" where
  "spec_word_count t = length (filter (\<lambda>w. w \<noteq> []) (split_ws t))"

text \<open>
  The specification calls a response structurally valid when it has non-empty generated
  text at the expected position, \<^verbatim>\<open>candidates[0].content.parts[0].text\<close>; any other
  shape, and a thrown error, is a failure. This reading of an outcome follows the
  specification's wording; \<open>try_dashboard_model\<close> and \<open>try_summary_model\<close> above test
  what the source tests, which is the presence of \<^verbatim>\<open>content\<close>.
\<close>

definition spec_generated_text :: "outcome \<Rightarrow> jsstring option" where
  "spec_generated_text oc =
     (case oc of
        Resolves (Result (Some (Candidate (Some (Content (Part (Some t) # _))) # _))) \<Rightarrow>
          if t = [] then None else Some t
      | _ \<Rightarrow> None)"

section \<open>Sample inputs\<close>

text \<open>
  A concrete runtime on which the handlers can be evaluated. Identifiers are strings, for
  which \<^verbatim>\<open>==\<close> with a key token is equality of strings. The service answers by model
  name alone.
\<close>

definition sample_runtime :: "(jsstring \<Rightarrow> outcome) \<Rightarrow> jsstring runtime" where
  "sample_runtime service =
     \<lparr>looseEquals = (\<lambda>ident token. ident = token),
      generateContent = (\<lambda>modelName promptText. service modelName)\<rparr>"

text \<open>
  A reply that carries one text part, and one whose part carries no text; a \<^verbatim>\<open>POST\<close>
  request with an object body; virtue entries (intensities 8 and 3.5, and an entry whose
  identifier contains a hyphen and whose intensity is absent) and request bodies.
\<close>

definition text_reply :: "jsstring \<Rightarrow> outcome" where
  "text_reply t = Resolves (Result (Some [Candidate (Some (Content [Part (Some t)]))]))"

definition textless_reply :: outcome where
  "textless_reply = Resolves (Result (Some [Candidate (Some (Content [Part None]))]))"

definition post :: "'b \<Rightarrow> 'b request" where
  "post b = \<lparr>httpMethod = S ''POST'', body = Object b\<rparr>"

definition honesty :: "jsstring virtue_entry" where
  "honesty = \<lparr>virtueId = S ''3'', virtue = Some (S ''Honesty''), defectIntensity = Finite 8 0\<rparr>"

definition patience :: "jsstring virtue_entry" where
  "patience = \<lparr>virtueId = S ''12'', virtue = Some (S ''Patience''), defectIntensity = Finite 7 (- 1)\<rparr>"


definition honesty_body :: "jsstring dashboard_body" where
  "honesty_body =
     \<lparr>assessmentSummary = None, prioritizedVirtues = Some [honesty],
      stageProgress = None, recentProgress = None, isFirstTime = Boolean True\<rparr>"



text \<open>
  Services: one that is down, one under which only the second model answers, one whose
  first model answers with an empty text while the others would answer with a text, and
  one under which only the last model replies.
\<close>

definition failing_service :: "jsstring \<Rightarrow> outcome" where
  "failing_service modelName = Rejects (S ''no quota for '' @ modelName)"

definition second_model_answers :: "jsstring \<Rightarrow> jsstring \<Rightarrow> outcome" where
  "second_model_answers t modelName =
     (if modelName = S ''gemini-2.0-flash-lite'' then text_reply t else Rejects (S ''unavailable''))"

definition empty_then_answers :: "jsstring \<Rightarrow> outcome" where
  "empty_then_answers modelName =
     (if modelName = S ''gemini-2.5-flash-lite'' then text_reply [] else text_reply (S ''Continue''))"

definition only_last_replies :: "outcome \<Rightarrow> jsstring \<Rightarrow> outcome" where
  "only_last_replies reply modelName =
     (if modelName = S ''gemini-pro'' then reply else failing_service modelName)"

section \<open>Facts about splitting and joining\<close>

lemma split_at_not_Nil: "split_at sep s \<noteq> []"
  by (induction s) (auto split: list.splits)

lemma split_at_no_sep: "sep \<notin> set a \<Longrightarrow> split_at sep a = [a]"
  by (induction a) auto




lemma key_stage_no_hyphen: "0x2D \<notin> set a \<Longrightarrow> key_stage a = None"
  by (simp add: key_stage_def split_at_no_sep)

lemma split_ws_Nil: "split_ws [] = [[]]"
  by (simp add: split_ws.simps)

lemma split_ws_word_space:
  assumes "\<forall>c\<in>set w. \<not> is_space c" and "is_space sp"
  shows "split_ws (w @ sp # rest) = w # split_ws (dropWhile is_space rest)"
proof -
  have t: "takeWhile (\<lambda>c. \<not> is_space c) (w @ sp # rest) = w"
    using assms by (simp add: takeWhile_append2)
  have d: "dropWhile (\<lambda>c. \<not> is_space c) (w @ sp # rest) = sp # rest"
    using assms by (simp add: dropWhile_append2)
  show ?thesis
    by (subst split_ws.simps) (simp add: t d assms(2) Let_def)
qed

lemma split_ws_word_end:
  assumes "\<forall>c\<in>set w. \<not> is_space c"
  shows "split_ws w = [w]"
proof -
  have "takeWhile (\<lambda>c. \<not> is_space c) w = w" "dropWhile (\<lambda>c. \<not> is_space c) w = []"
    using assms by simp_all
  then show ?thesis by (subst split_ws.simps) (simp add: Let_def)
qed

lemma split_ws_repeated_word:
  assumes w: "\<forall>c\<in>set w. \<not> is_space c" "w \<noteq> []" and sp: "is_space sp"
    and rest: "rest = [] \<or> \<not> is_space (hd rest)"
  shows "split_ws (concat (replicate n (w @ [sp])) @ rest) = replicate n w @ split_ws rest"
proof (induction n)
  case 0
  show ?case by simp
next
  case (Suc n)
  let ?tail = "concat (replicate n (w @ [sp])) @ rest"
  have "dropWhile is_space ?tail = ?tail"
  proof (cases n)
    case 0
    then show ?thesis using rest by (cases rest) auto
  next
    case (Suc k)
    obtain c cs where "w = c # cs" using w(2) by (cases w) auto
    then show ?thesis using w(1) Suc by simp
  qed
  then have "split_ws (w @ sp # ?tail) = w # split_ws ?tail"
    using split_ws_word_space[OF w(1) sp, of ?tail] by simp
  then show ?case using Suc.IH by simp
qed

lemma join_Cons: "ys \<noteq> [] \<Longrightarrow> join sep (x # ys) = x @ sep @ join sep ys"
  by (cases ys) auto

lemma join_replicate_snoc: "join sep (replicate n w @ [x]) = concat (replicate n (w @ sep)) @ x"
  by (induction n) (auto simp: join_Cons)

lemma is_space_simps: "is_space 0x20" "is_space 0x0A" "\<not> is_space 0x61"
  by (simp_all add: is_space_def)

section \<open>Facts about numbers\<close>




lemma bit_length_le: "n < 2 ^ k \<Longrightarrow> bit_length n \<le> k"
proof (induction k arbitrary: n)
  case 0
  then show ?case by (simp add: bit_length.simps)
next
  case (Suc k)
  show ?case
  proof (cases "n = 0")
    case True
    then show ?thesis by (simp add: bit_length.simps)
  next
    case False
    have "n div 2 < 2 ^ k" using Suc.prems by auto
    then have "bit_length (n div 2) \<le> k" by (rule Suc.IH)
    then show ?thesis using False by (subst bit_length.simps) simp
  qed
qed

lemma round_to_53_bits_exact: "a < 2 ^ 53 \<Longrightarrow> round_to_53_bits a = (a, 0)"
  using bit_length_le[of a 53] by (simp add: round_to_53_bits_def)




lemma exact_difference:
  "number_value (10 * 2 ^ nat (- min e 0) - m * 2 ^ nat (e - min e 0)) (min e 0)
     = 10 - number_value m e"
proof (cases "0 \<le> e")
  case True
  then show ?thesis by (simp add: number_value_def power_int_def min_def)
next
  case False
  then have "min e 0 = e" by simp
  then show ?thesis using False
    by (simp add: number_value_def power_int_def field_simps)
qed


lemma tenMinus_exact:
  assumes "\<bar>10 * 2 ^ nat (- min e 0) - m * 2 ^ nat (e - min e 0)\<bar> < 2 ^ 53"
  shows "\<exists>M E. tenMinus (Finite m e) = Finite M E \<and> number_value M E = 10 - number_value m e"
proof -
  define M0 where "M0 = 10 * 2 ^ nat (- min e 0) - m * 2 ^ nat (e - min e 0)"
  have "nat \<bar>M0\<bar> < 2 ^ 53" using assms by (simp add: M0_def nat_less_iff)
  then have "round_to_53_bits (nat \<bar>M0\<bar>) = (nat \<bar>M0\<bar>, 0)" by (rule round_to_53_bits_exact)
  then have "tenMinus (Finite m e) = Finite M0 (min e 0)"
    by (simp add: tenMinus_def Let_def M0_def mult_sgn_abs)
  then show ?thesis using exact_difference[of e m] by (simp add: M0_def)
qed








lemma abs_number_value: "\<bar>number_value m e\<bar> = number_value (int (nat \<bar>m\<bar>)) e"
  by (simp add: number_value_def abs_mult)



section \<open>Facts about the word limit\<close>

text \<open>
  The limit leaves a text alone exactly when its split has at most 150 pieces, and
  otherwise keeps the first 150 pieces, joined by single spaces, and appends three dots.
\<close>

lemma enforce_word_limit_unchanged:
  "length (split_ws t) \<le> 150 \<Longrightarrow> enforce_word_limit t = t"
  by (simp add: enforce_word_limit_def Let_def)

lemma enforce_word_limit_truncated:
  "150 < length (split_ws t) \<Longrightarrow>
     enforce_word_limit t = join (S '' '') (take 150 (split_ws t)) @ S ''...''"
  by (simp add: enforce_word_limit_def Let_def)

lemma split_ws_150_words:
  "split_ws (concat (replicate 149 (S ''a '')) @ S ''a\<newline>'') = replicate 149 (S ''a'') @ [S ''a'', []]"
proof -
  have a: "S ''a '' = S ''a'' @ [0x20]" by (simp add: S_def)
  have tl: "split_ws (S ''a\<newline>'') = [S ''a'', []]"
    using split_ws_word_space[of "S ''a''" "0x0A" "[]"]
    by (simp add: S_def is_space_simps split_ws_Nil)
  have "split_ws (concat (replicate 149 (S ''a'' @ [0x20])) @ S ''a\<newline>'')
          = replicate 149 (S ''a'') @ split_ws (S ''a\<newline>'')"
    by (rule split_ws_repeated_word) (simp_all add: S_def is_space_simps)
  then show ?thesis by (simp add: a tl)
qed

section \<open>Facts about the loop\<close>

text \<open>
  Closed forms of the loop and of the handlers: when every attempt throws, when the
  attempts before some model throw and that model's attempt reaches \<^verbatim>\<open>break\<close>, and
  when the attempt that reaches \<^verbatim>\<open>break\<close> brings an empty text or none.
\<close>

lemma invoked_append: "invoked (xs @ ys) = invoked xs @ invoked ys"
  by (induction xs rule: invoked.induct) auto

lemma invoked_failed_attempts:
  "invoked (concat (map (\<lambda>m. [Trying m, Failed m (f m)]) ms)) = ms"
  by (induction ms) auto

lemma run_models_all_fail:
  assumes "\<forall>m\<in>set ms. isl (attempt m)"
  shows "run_models attempt ms st =
           st\<lparr>lastError := (if ms = [] then lastError st else Some (projl (attempt (last ms)))),
              console := console st @ concat (map (\<lambda>m. [Trying m, Failed m (projl (attempt m))]) ms)\<rparr>"
  using assms
proof (induction ms arbitrary: st)
  case Nil
  then show ?case by simp
next
  case (Cons m ms)
  from Cons.prems obtain e where e: "attempt m = Inl e" by (cases "attempt m") auto
  from Cons.prems have rest: "\<forall>x\<in>set ms. isl (attempt x)" by simp
  show ?case using e Cons.IH[OF rest] by (simp add: Let_def)
qed

lemma run_models_first_success:
  assumes "\<forall>m\<in>set pre. isl (attempt m)" and "attempt m = Inr t"
  shows "run_models attempt (pre @ m # rest) st =
           st\<lparr>generated := t, successfulModel := m,
              lastError := (if pre = [] then lastError st else Some (projl (attempt (last pre)))),
              console := console st @ concat (map (\<lambda>m. [Trying m, Failed m (projl (attempt m))]) pre)
                          @ [Trying m, Succeeded m]\<rparr>"
  using assms(1)
proof (induction pre arbitrary: st)
  case Nil
  then show ?case using assms(2) by (simp add: Let_def)
next
  case (Cons x pre)
  from Cons.prems obtain e where e: "attempt x = Inl e" by (cases "attempt x") auto
  from Cons.prems have others: "\<forall>y\<in>set pre. isl (attempt y)" by simp
  show ?case using e Cons.IH[OF others] by (simp add: Let_def)
qed

lemma modelNames_nth:
  "modelNames ! 0 = S ''gemini-2.5-flash-lite''" "modelNames ! 2 = S ''gemini-1.5-flash-lite''"
  "length modelNames = 5" "last modelNames = S ''gemini-pro''" "modelNames \<noteq> []"
  by (simp_all add: modelNames_def)

lemma modelNames_nonempty_names: "m \<in> set modelNames \<Longrightarrow> model_or_fallback m = m"
  by (auto simp: modelNames_def model_or_fallback_def S_def)

lemma model_or_fallback_empty: "model_or_fallback [] = S ''fallback''"
  by (simp add: model_or_fallback_def)

lemma enforce_word_limit_Nil: "enforce_word_limit [] = []"
  by (simp add: enforce_word_limit_unchanged split_ws_Nil)

lemma try_dashboard_model_text:
  "try_dashboard_model (Resolves (Result (Some (Candidate (Some (Content (Part (Some t) # ps))) # cs))))
     = Inr (enforce_word_limit t)"
  by (simp add: try_dashboard_model_def)

lemma try_summary_model_text:
  "try_summary_model (Resolves (Result (Some (Candidate (Some (Content (Part t # ps))) # cs)))) = Inr t"
  by (simp add: try_summary_model_def)

lemma try_rejects:
  "try_dashboard_model (Rejects msg) = Inl (ServiceError msg)"
  "try_summary_model (Rejects msg) = Inl (ServiceError msg)"
  by (simp_all add: try_dashboard_model_def try_summary_model_def)

lemma run_models_by_index:
  "(i < length ms \<and> attempt (ms ! i) = Inr t \<and> (\<forall>j<i. isl (attempt (ms ! j))) \<longrightarrow>
      generated (run_models attempt ms st) = t \<and>
      successfulModel (run_models attempt ms st) = ms ! i \<and>
      invoked (console (run_models attempt ms st)) = invoked (console st) @ take (Suc i) ms)
   \<and> ((\<forall>m\<in>set ms. isl (attempt m)) \<longrightarrow>
      generated (run_models attempt ms st) = generated st \<and>
      successfulModel (run_models attempt ms st) = successfulModel st \<and>
      invoked (console (run_models attempt ms st)) = invoked (console st) @ ms)"
proof (intro conjI impI)
  assume a: "i < length ms \<and> attempt (ms ! i) = Inr t \<and> (\<forall>j<i. isl (attempt (ms ! j)))"
  then have i: "i < length ms" and ok: "attempt (ms ! i) = Inr t"
    and before: "\<forall>j<i. isl (attempt (ms ! j))" by simp_all
  have split: "ms = take i ms @ ms ! i # drop (Suc i) ms"
    using i by (rule id_take_nth_drop)
  have pre: "\<forall>m\<in>set (take i ms). isl (attempt m)"
  proof
    fix m assume "m \<in> set (take i ms)"
    then obtain j where "j < length (take i ms)" "take i ms ! j = m"
      by (auto simp: in_set_conv_nth)
    then show "isl (attempt m)" using before i by auto
  qed
  have run: "run_models attempt ms st =
      st\<lparr>generated := t, successfulModel := ms ! i,
         lastError := (if take i ms = [] then lastError st
                       else Some (projl (attempt (last (take i ms))))),
         console := console st
           @ concat (map (\<lambda>m. [Trying m, Failed m (projl (attempt m))]) (take i ms))
           @ [Trying (ms ! i), Succeeded (ms ! i)]\<rparr>"
    using run_models_first_success[OF pre ok, of "drop (Suc i) ms" st] split by simp
  show "generated (run_models attempt ms st) = t" by (simp add: run)
  show "successfulModel (run_models attempt ms st) = ms ! i" by (simp add: run)
  show "invoked (console (run_models attempt ms st)) = invoked (console st) @ take (Suc i) ms"
    using i by (simp add: run invoked_append invoked_failed_attempts take_Suc_conv_app_nth)
next
  assume f: "\<forall>m\<in>set ms. isl (attempt m)"
  show "generated (run_models attempt ms st) = generated st"
    by (simp add: run_models_all_fail[OF f])
  show "successfulModel (run_models attempt ms st) = successfulModel st"
    by (simp add: run_models_all_fail[OF f])
  show "invoked (console (run_models attempt ms st)) = invoked (console st) @ ms"
    by (simp add: run_models_all_fail[OF f] invoked_append invoked_failed_attempts)
qed

lemma all_attempts_throw_response:
  "(httpMethod req \<noteq> S ''OPTIONS'' \<and> body req = Object b \<and>
    (\<forall>m\<in>set modelNames. isl (try_dashboard_model (generateContent rt m (dashboard_prompt rt b)))) \<longrightarrow>
      fst (getDashboardPrompt rt req) =
        Response 200 (Prompt (dashboard_fallback b) (S ''fallback'') True))
   \<and> (httpMethod req' \<noteq> S ''OPTIONS'' \<and> body req' = Object b' \<and>
      analyses b' = IsArray as \<and> summaryVirtues b' = IsArray vs \<and>
      (\<forall>m\<in>set modelNames. isl (try_summary_model (generateContent rt' m (summary_prompt as vs)))) \<longrightarrow>
      fst (getSummaryAnalysis rt' req') =
        Response 200 (Summary (summary_fallback vs) (S ''fallback'') True))"
proof (intro conjI impI)
  assume a: "httpMethod req \<noteq> S ''OPTIONS'' \<and> body req = Object b \<and>
    (\<forall>m\<in>set modelNames. isl (try_dashboard_model (generateContent rt m (dashboard_prompt rt b))))"
  then have f: "\<forall>m\<in>set modelNames. isl (try_dashboard_model (generateContent rt m (dashboard_prompt rt b)))"
    by simp
  show "fst (getDashboardPrompt rt req) = Response 200 (Prompt (dashboard_fallback b) (S ''fallback'') True)"
    using a run_models_all_fail[OF f]
    by (simp add: getDashboardPrompt_def Let_def model_or_fallback_empty)
next
  assume a: "httpMethod req' \<noteq> S ''OPTIONS'' \<and> body req' = Object b' \<and>
      analyses b' = IsArray as \<and> summaryVirtues b' = IsArray vs \<and>
      (\<forall>m\<in>set modelNames. isl (try_summary_model (generateContent rt' m (summary_prompt as vs))))"
  then have f: "\<forall>m\<in>set modelNames. isl (try_summary_model (generateContent rt' m (summary_prompt as vs)))"
    by simp
  show "fst (getSummaryAnalysis rt' req') = Response 200 (Summary (summary_fallback vs) (S ''fallback'') True)"
    using a run_models_all_fail[OF f]
    by (simp add: getSummaryAnalysis_def Let_def model_or_fallback_empty)
qed

lemma all_attempts_throw_console:
  assumes "httpMethod req \<noteq> S ''OPTIONS''" and "body req = Object b"
  shows "((\<forall>m\<in>set modelNames. isl (try_dashboard_model (generateContent rt m (dashboard_prompt rt b)))) \<longrightarrow>
            snd (getDashboardPrompt rt req) =
              concat (map (\<lambda>m. [Trying m,
                       Failed m (projl (try_dashboard_model (generateContent rt m (dashboard_prompt rt b))))])
                     modelNames)
              @ [AllModelsFailed
                   (Some (projl (try_dashboard_model
                      (generateContent rt (S ''gemini-pro'') (dashboard_prompt rt b)))))])
         \<and> (\<exists>t m. fst (getDashboardPrompt rt req) = Response 200 (Prompt t m True))"
proof (intro conjI impI)
  assume f: "\<forall>m\<in>set modelNames. isl (try_dashboard_model (generateContent rt m (dashboard_prompt rt b)))"
  show "snd (getDashboardPrompt rt req) =
          concat (map (\<lambda>m. [Trying m,
                   Failed m (projl (try_dashboard_model (generateContent rt m (dashboard_prompt rt b))))])
                 modelNames)
          @ [AllModelsFailed
               (Some (projl (try_dashboard_model
                  (generateContent rt (S ''gemini-pro'') (dashboard_prompt rt b)))))]"
    using assms run_models_all_fail[OF f]
    by (simp add: getDashboardPrompt_def Let_def modelNames_nth)
next
  show "\<exists>t m. fst (getDashboardPrompt rt req) = Response 200 (Prompt t m True)"
    using assms by (simp add: getDashboardPrompt_def Let_def)
qed

lemma modelNames_butlast:
  "butlast modelNames =
     [S ''gemini-2.5-flash-lite'', S ''gemini-2.0-flash-lite'', S ''gemini-1.5-flash-lite'',
      S ''gemini-1.5-flash'']"
  "modelNames = butlast modelNames @ [S ''gemini-pro'']"
  "last (butlast modelNames) = S ''gemini-1.5-flash''"
  by (simp_all add: modelNames_def)

lemma spec_generated_text_throws:
  "isl (try_dashboard_model oc) \<Longrightarrow> spec_generated_text oc = None"
  "isl (try_summary_model oc) \<Longrightarrow> spec_generated_text oc = None"
  by (auto simp: spec_generated_text_def try_dashboard_model_def try_summary_model_def
      split: outcome.splits generate_result.splits option.splits list.splits candidate.splits
        content.splits part.splits)

lemma spec_generated_text_simps:
  "spec_generated_text (Resolves (Result (Some (Candidate (Some (Content (Part (Some []) # ps))) # cs)))) = None"
  "spec_generated_text (Resolves (Result (Some (Candidate (Some (Content (Part None # ps))) # cs)))) = None"
  "t \<noteq> [] \<Longrightarrow>
     spec_generated_text (Resolves (Result (Some (Candidate (Some (Content (Part (Some t) # ps))) # cs)))) = Some t"
  by (simp_all add: spec_generated_text_def)

lemma dashboard_first_reply_empty:
  assumes "httpMethod req \<noteq> S ''OPTIONS''" and "body req = Object b"
    and "generateContent rt (S ''gemini-2.5-flash-lite'') (dashboard_prompt rt b)
           = Resolves (Result (Some (Candidate (Some (Content (Part (Some []) # ps))) # cs)))"
  shows "getDashboardPrompt rt req =
           (Response 200 (Prompt (dashboard_fallback b) (S ''gemini-2.5-flash-lite'') True),
            [Trying (S ''gemini-2.5-flash-lite''), Succeeded (S ''gemini-2.5-flash-lite''),
             AllModelsFailed None])"
proof -
  let ?att = "\<lambda>modelName. try_dashboard_model (generateContent rt modelName (dashboard_prompt rt b))"
  have first: "?att (S ''gemini-2.5-flash-lite'') = Inr []"
    by (simp add: assms(3) try_dashboard_model_text enforce_word_limit_Nil)
  have names: "modelNames = [] @ S ''gemini-2.5-flash-lite'' # tl modelNames"
    by (simp add: modelNames_def)
  have "run_models ?att modelNames \<lparr>generated = [], lastError = None, successfulModel = [], console = []\<rparr>
          = \<lparr>generated = [], lastError = None, successfulModel = S ''gemini-2.5-flash-lite'',
             console = [Trying (S ''gemini-2.5-flash-lite''), Succeeded (S ''gemini-2.5-flash-lite'')]\<rparr>"
    by (subst names, subst run_models_first_success[where t = "[]"]) (simp_all add: first)
  moreover have "model_or_fallback (S ''gemini-2.5-flash-lite'') = S ''gemini-2.5-flash-lite''"
    by (simp add: modelNames_nonempty_names modelNames_def)
  ultimately show ?thesis
    using assms(1,2) by (simp add: getDashboardPrompt_def Let_def)
qed

lemma dashboard_last_reply_empty:
  assumes "httpMethod req \<noteq> S ''OPTIONS''" and "body req = Object b"
    and "\<forall>m\<in>set (butlast modelNames).
           isl (try_dashboard_model (generateContent rt m (dashboard_prompt rt b)))"
    and "generateContent rt (S ''gemini-pro'') (dashboard_prompt rt b)
           = Resolves (Result (Some (Candidate (Some (Content (Part (Some []) # ps))) # cs)))"
  shows "getDashboardPrompt rt req =
           (Response 200 (Prompt (dashboard_fallback b) (S ''gemini-pro'') True),
            concat (map (\<lambda>m. [Trying m,
                       Failed m (projl (try_dashboard_model (generateContent rt m (dashboard_prompt rt b))))])
                     (butlast modelNames))
            @ [Trying (S ''gemini-pro''), Succeeded (S ''gemini-pro''),
               AllModelsFailed
                 (Some (projl (try_dashboard_model
                    (generateContent rt (S ''gemini-1.5-flash'') (dashboard_prompt rt b)))))])"
proof -
  let ?att = "\<lambda>modelName. try_dashboard_model (generateContent rt modelName (dashboard_prompt rt b))"
  let ?init = "\<lparr>generated = ([] :: jsstring), lastError = None, successfulModel = [], console = []\<rparr>"
  have last: "?att (S ''gemini-pro'') = Inr []"
    by (simp add: assms(4) try_dashboard_model_text enforce_word_limit_Nil)
  have ne: "butlast modelNames \<noteq> []" by (simp add: modelNames_butlast(1))
  have "run_models ?att (butlast modelNames @ S ''gemini-pro'' # []) ?init =
          ?init\<lparr>generated := [], successfulModel := S ''gemini-pro'',
             lastError := (if butlast modelNames = [] then lastError ?init
                           else Some (projl (?att (last (butlast modelNames))))),
             console := console ?init
               @ concat (map (\<lambda>m. [Trying m, Failed m (projl (?att m))]) (butlast modelNames))
               @ [Trying (S ''gemini-pro''), Succeeded (S ''gemini-pro'')]\<rparr>"
    by (rule run_models_first_success[OF assms(3) last])
  then have run: "run_models ?att modelNames ?init =
          \<lparr>generated = [], lastError = Some (projl (?att (S ''gemini-1.5-flash''))),
           successfulModel = S ''gemini-pro'',
           console = concat (map (\<lambda>m. [Trying m, Failed m (projl (?att m))]) (butlast modelNames))
               @ [Trying (S ''gemini-pro''), Succeeded (S ''gemini-pro'')]\<rparr>"
    using ne modelNames_butlast(2) by (simp add: modelNames_butlast(3))
  have name: "model_or_fallback (S ''gemini-pro'') = S ''gemini-pro''"
    by (simp add: modelNames_nonempty_names modelNames_def)
  show ?thesis
    using assms(1,2) by (simp add: getDashboardPrompt_def Let_def run name)
qed

lemma summary_last_reply_textless:
  assumes "httpMethod req \<noteq> S ''OPTIONS''" and "body req = Object b"
    and "analyses b = IsArray as" and "summaryVirtues b = IsArray vs"
    and "\<forall>m\<in>set (butlast modelNames).
           isl (try_summary_model (generateContent rt m (summary_prompt as vs)))"
    and "generateContent rt (S ''gemini-pro'') (summary_prompt as vs)
           = Resolves (Result (Some (Candidate (Some (Content (Part None # ps))) # cs)))"
  shows "getSummaryAnalysis rt req =
           (Response 200 (Summary (summary_fallback vs) (S ''gemini-pro'') True),
            concat (map (\<lambda>m. [Trying m,
                       Failed m (projl (try_summary_model (generateContent rt m (summary_prompt as vs))))])
                     (butlast modelNames))
            @ [Trying (S ''gemini-pro''), Succeeded (S ''gemini-pro''),
               AllModelsFailed
                 (Some (projl (try_summary_model
                    (generateContent rt (S ''gemini-1.5-flash'') (summary_prompt as vs)))))])"
proof -
  let ?att = "\<lambda>modelName. try_summary_model (generateContent rt modelName (summary_prompt as vs))"
  let ?init = "\<lparr>generated = Some ([] :: jsstring), lastError = None, successfulModel = [], console = []\<rparr>"
  have last: "?att (S ''gemini-pro'') = Inr None"
    by (simp add: assms(6) try_summary_model_text)
  have ne: "butlast modelNames \<noteq> []" by (simp add: modelNames_butlast(1))
  have "run_models ?att (butlast modelNames @ S ''gemini-pro'' # []) ?init =
          ?init\<lparr>generated := None, successfulModel := S ''gemini-pro'',
             lastError := (if butlast modelNames = [] then lastError ?init
                           else Some (projl (?att (last (butlast modelNames))))),
             console := console ?init
               @ concat (map (\<lambda>m. [Trying m, Failed m (projl (?att m))]) (butlast modelNames))
               @ [Trying (S ''gemini-pro''), Succeeded (S ''gemini-pro'')]\<rparr>"
    by (rule run_models_first_success[OF assms(5) last])
  then have run: "run_models ?att modelNames ?init =
          \<lparr>generated = None, lastError = Some (projl (?att (S ''gemini-1.5-flash''))),
           successfulModel = S ''gemini-pro'',
           console = concat (map (\<lambda>m. [Trying m, Failed m (projl (?att m))]) (butlast modelNames))
               @ [Trying (S ''gemini-pro''), Succeeded (S ''gemini-pro'')]\<rparr>"
    using ne modelNames_butlast(2) by (simp add: modelNames_butlast(3))
  have name: "model_or_fallback (S ''gemini-pro'') = S ''gemini-pro''"
    by (simp add: modelNames_nonempty_names modelNames_def)
  show ?thesis
    using assms(1-4) by (simp add: getSummaryAnalysis_def Let_def run name)
qed

section \<open>Facts about the prompt\<close>





lemma stage_label_simps:
  "S '' - '' @ S ''Dismantling'' @ S '': '' @ status = S '' - Dismantling: '' @ status"
  "S '' - '' @ S ''Building'' @ S '': '' @ status = S '' - Building: '' @ status"
  "S '' - '' @ S ''Practicing'' @ S '': '' @ status = S '' - Practicing: '' @ status"
  "S ''Unknown'' @ S '' - '' @ rest = S ''Unknown - '' @ rest"
  by (simp_all add: S_def)




section \<open>Facts about the sample inputs\<close>

lemma post_simps: "httpMethod (post b) = S ''POST''" "body (post b) = Object b"
  by (simp_all add: post_def)

lemma post_not_options: "S ''POST'' \<noteq> S ''OPTIONS''"
  by (simp add: S_def)

lemma sample_generateContent: "generateContent (sample_runtime service) m p = service m"
  by (simp add: sample_runtime_def)

lemma dashboard_fallback_honesty:
  "dashboard_fallback honesty_body =
     S ''Welcome to your virtue development journey! Start by working on Honesty in the Dismantling stage to begin recognizing character defects. Click the stage buttons to begin your reflection.''"
  by (simp add: dashboard_fallback_def topVirtue_def firstTime_def or_else_def honesty_body_def
      honesty_def S_def)

lemma empty_then_answers_simps:
  "empty_then_answers (S ''gemini-2.5-flash-lite'') = text_reply []"
  "empty_then_answers (S ''gemini-2.0-flash-lite'') = text_reply (S ''Continue'')"
  by (simp_all add: empty_then_answers_def S_def)

lemma only_last_replies_simps:
  "only_last_replies reply (S ''gemini-pro'') = reply"
  "only_last_replies reply (S ''gemini-2.5-flash-lite'') = Rejects (S ''no quota for gemini-2.5-flash-lite'')"
  "only_last_replies reply (S ''gemini-2.0-flash-lite'') = Rejects (S ''no quota for gemini-2.0-flash-lite'')"
  "only_last_replies reply (S ''gemini-1.5-flash-lite'') = Rejects (S ''no quota for gemini-1.5-flash-lite'')"
  "only_last_replies reply (S ''gemini-1.5-flash'') = Rejects (S ''no quota for gemini-1.5-flash'')"
  by (simp_all add: only_last_replies_def failing_service_def S_def)

lemma only_last_replies_throw:
  "\<forall>m\<in>set (butlast modelNames). isl (try_dashboard_model (only_last_replies reply m))"
  "\<forall>m\<in>set (butlast modelNames). isl (try_summary_model (only_last_replies reply m))"
  by (simp_all add: modelNames_butlast(1) only_last_replies_simps try_rejects)

lemma summary_fallback_two:
  "summary_fallback [honesty, patience] =
     S ''A full summary could not be generated at this time. Based on the data, the primary areas for development appear to be Honesty and Patience. Focusing on the root causes of challenges in these areas is a recommended next step.''"
  by (simp add: summary_fallback_def honesty_def patience_def S_def)

lemma sample_looseEquals:
  "looseEquals (sample_runtime service) ident token \<longleftrightarrow> ident = token"
  by (simp add: sample_runtime_def)



lemma find_virtue_sample:
  "find_virtue (sample_runtime service) (Some [honesty, patience]) (S ''3'') = Some honesty"
  "find_virtue (sample_runtime service) (Some [honesty, patience]) (S ''12'') = Some patience"
  "find_virtue (sample_runtime service) (Some [honesty, patience]) (S ''7'') = None"
  by (simp_all add: find_virtue_def sample_looseEquals honesty_def patience_def S_def)

lemma honesty_name: "or_else (Option.bind (Some honesty) virtue) (S ''Unknown'') = S ''Honesty''"
  by (simp add: honesty_def or_else_def S_def)

lemma second_model_answers_simps:
  "second_model_answers t (S ''gemini-2.5-flash-lite'') = Rejects (S ''unavailable'')"
  "second_model_answers t (S ''gemini-2.0-flash-lite'') = text_reply t"
  by (simp_all add: second_model_answers_def S_def)

lemma split_ws_200_words:
  "split_ws (concat (replicate 200 (S ''a ''))) = replicate 200 (S ''a'') @ [[]]"
proof -
  have a: "S ''a '' = S ''a'' @ [0x20]" by (simp add: S_def)
  have "split_ws (concat (replicate 200 (S ''a'' @ [0x20])) @ []) = replicate 200 (S ''a'') @ split_ws []"
    by (rule split_ws_repeated_word) (simp_all add: S_def is_space_simps)
  then show ?thesis by (simp add: a split_ws_Nil)
qed

section \<open>The claims\<close>

text \<open>
  In the theorems below a request is one that gets past the preflight branch (its method
  is not \<^verbatim>\<open>OPTIONS\<close>). An attempt on a model throws when \<open>try_dashboard_model\<close> or
  \<open>try_summary_model\<close> returns \<open>Inl\<close>; it fails in the sense of the specification when
  \<open>spec_generated_text\<close> of the service's outcome is \<open>None\<close>. An attempt that throws has
  failed, but an attempt can fail without throwing: a reply whose text is empty, or whose
  first part carries no text, passes the test of the loop.
\<close>

text \<open>
  Claim C1 (the \<^verbatim>\<open>model\<close> field names the true source of the text, and is
  \<^verbatim>\<open>fallback\<close> exactly when the text is the fallback text).
  The code breaks it when the first model answers with an empty text: the loop records
  that model as successful and stops, \<^verbatim>\<open>!promptText\<close> then holds, so for every such
  request the dashboard handler logs "All models failed" with no error, sends the
  deterministic fallback text, and names \<^verbatim>\<open>gemini-2.5-flash-lite\<close> as its model.
\<close>

theorem C1_empty_text_keeps_model_name:
  assumes "httpMethod req \<noteq> S ''OPTIONS''" and "body req = Object b"
    and "generateContent rt (S ''gemini-2.5-flash-lite'') (dashboard_prompt rt b)
           = Resolves (Result (Some (Candidate (Some (Content (Part (Some []) # ps))) # cs)))"
  shows "getDashboardPrompt rt req =
           (Response 200 (Prompt (dashboard_fallback b) (S ''gemini-2.5-flash-lite'') True),
            [Trying (S ''gemini-2.5-flash-lite''), Succeeded (S ''gemini-2.5-flash-lite''),
             AllModelsFailed None])"
proof -
  let ?att = "\<lambda>modelName. try_dashboard_model (generateContent rt modelName (dashboard_prompt rt b))"
  have first: "?att (S ''gemini-2.5-flash-lite'') = Inr []"
    by (simp add: assms(3) try_dashboard_model_text enforce_word_limit_Nil)
  have names: "modelNames = [] @ S ''gemini-2.5-flash-lite'' # tl modelNames"
    by (simp add: modelNames_def)
  have "run_models ?att modelNames \<lparr>generated = [], lastError = None, successfulModel = [], console = []\<rparr>
          = \<lparr>generated = [], lastError = None, successfulModel = S ''gemini-2.5-flash-lite'',
             console = [Trying (S ''gemini-2.5-flash-lite''), Succeeded (S ''gemini-2.5-flash-lite'')]\<rparr>"
    by (subst names, subst run_models_first_success[where t = "[]"]) (simp_all add: first)
  moreover have "model_or_fallback (S ''gemini-2.5-flash-lite'') = S ''gemini-2.5-flash-lite''"
    by (simp add: modelNames_nonempty_names modelNames_def)
  ultimately show ?thesis
    using assms(1,2) by (simp add: getDashboardPrompt_def Let_def)
qed

text \<open>The same on a concrete request: a first-time user whose top virtue is Honesty.\<close>

theorem C1_empty_text_keeps_model_name_witness:
  "getDashboardPrompt (sample_runtime (\<lambda>modelName. text_reply [])) (post honesty_body) =
     (Response 200
        (Prompt (S ''Welcome to your virtue development journey! Start by working on Honesty in the Dismantling stage to begin recognizing character defects. Click the stage buttons to begin your reflection.'')
           (S ''gemini-2.5-flash-lite'') True),
      [Trying (S ''gemini-2.5-flash-lite''), Succeeded (S ''gemini-2.5-flash-lite''),
       AllModelsFailed None])"
  using C1_empty_text_keeps_model_name[of "post honesty_body" honesty_body
      "sample_runtime (\<lambda>modelName. text_reply [])" "[]" "[]"]
  by (simp add: post_simps post_not_options sample_generateContent text_reply_def
      dashboard_fallback_honesty)

text \<open>
  Claim C2 (the fallback responder never fails and puts a generic placeholder phrase in
  place of the virtue names when the priority list is empty, on both endpoints).
  The summary endpoint has no placeholder: when the list is an empty array and every
  attempt fails, it answers 200 with a sentence whose place for the names is empty
  ("appear to be . Focusing"). The dashboard endpoint does substitute
  \<^verbatim>\<open>your priority virtue\<close> (see \<open>topVirtue\<close>).
\<close>

theorem C2_summary_fallback_without_placeholder:
  assumes "httpMethod req \<noteq> S ''OPTIONS''" and "body req = Object b"
    and "analyses b = IsArray as" and "summaryVirtues b = IsArray ([] :: 'i virtue_entry list)"
    and "\<forall>m\<in>set modelNames.
           isl (try_summary_model (generateContent rt m (summary_prompt as ([] :: 'i virtue_entry list))))"
  shows "fst (getSummaryAnalysis rt req) =
           Response 200
             (Summary (S ''A full summary could not be generated at this time. Based on the data, the primary areas for development appear to be . Focusing on the root causes of challenges in these areas is a recommended next step.'')
                (S ''fallback'') True)"
proof -
  have "summary_fallback ([] :: 'i virtue_entry list) =
          S ''A full summary could not be generated at this time. Based on the data, the primary areas for development appear to be . Focusing on the root causes of challenges in these areas is a recommended next step.''"
    by (simp add: summary_fallback_def S_def)
  then show ?thesis
    using assms(1-4) run_models_all_fail[OF assms(5)]
    by (simp add: getSummaryAnalysis_def Let_def model_or_fallback_empty)
qed

text \<open>The same on a concrete request with two empty arrays and a service that is down.\<close>

theorem C2_summary_fallback_without_placeholder_witness:
  "fst (getSummaryAnalysis (sample_runtime (\<lambda>modelName. Rejects (S ''unavailable'')))
          (post \<lparr>analyses = IsArray [], summaryVirtues = IsArray []\<rparr>)) =
     Response 200
       (Summary (S ''A full summary could not be generated at this time. Based on the data, the primary areas for development appear to be . Focusing on the root causes of challenges in these areas is a recommended next step.'')
          (S ''fallback'') True)"
  using C2_summary_fallback_without_placeholder[where
      req = "post \<lparr>analyses = IsArray [], summaryVirtues = IsArray []\<rparr>"
      and b = "\<lparr>analyses = IsArray [], summaryVirtues = IsArray []\<rparr>" and as = "[]"
      and rt = "sample_runtime (\<lambda>modelName. Rejects (S ''unavailable''))"]
  by (simp add: post_simps post_not_options sample_generateContent try_rejects)

text \<open>
  Claim C3 (the candidates are tried in order and the first one whose response is
  structurally valid supplies the text and the name). The code ends the search at the
  first reply that has \<^verbatim>\<open>content\<close>, valid or not. For every request on which the first
  model replies with an empty text, that attempt has failed in the sense of the
  specification, yet no other model is invoked: the console shows the one model
  \<^verbatim>\<open>gemini-2.5-flash-lite\<close>, and the handler sends the deterministic fallback text under
  that model's name. It is the defect of an empty reply, seen from the loop.
\<close>

theorem C3_empty_reply_ends_the_search:
  assumes "httpMethod req \<noteq> S ''OPTIONS''" and "body req = Object b"
    and "generateContent rt (S ''gemini-2.5-flash-lite'') (dashboard_prompt rt b)
           = Resolves (Result (Some (Candidate (Some (Content (Part (Some []) # ps))) # cs)))"
  shows "spec_generated_text (generateContent rt (S ''gemini-2.5-flash-lite'') (dashboard_prompt rt b)) = None
         \<and> invoked (snd (getDashboardPrompt rt req)) = [S ''gemini-2.5-flash-lite'']
         \<and> fst (getDashboardPrompt rt req) =
             Response 200 (Prompt (dashboard_fallback b) (S ''gemini-2.5-flash-lite'') True)"
  using dashboard_first_reply_empty[OF assms]
  by (simp add: assms(3) spec_generated_text_simps)

text \<open>
  On a concrete service whose second model would have answered \<^verbatim>\<open>Continue\<close>, a
  structurally valid response: the second model is never invoked.
\<close>

theorem C3_empty_reply_ends_the_search_witness:
  "spec_generated_text (empty_then_answers (S ''gemini-2.5-flash-lite'')) = None
   \<and> spec_generated_text (empty_then_answers (S ''gemini-2.0-flash-lite'')) = Some (S ''Continue'')
   \<and> invoked (snd (getDashboardPrompt (sample_runtime empty_then_answers) (post honesty_body)))
       = [S ''gemini-2.5-flash-lite'']
   \<and> fst (getDashboardPrompt (sample_runtime empty_then_answers) (post honesty_body)) =
       Response 200
         (Prompt (S ''Welcome to your virtue development journey! Start by working on Honesty in the Dismantling stage to begin recognizing character defects. Click the stage buttons to begin your reflection.'')
            (S ''gemini-2.5-flash-lite'') True)"
proof -
  have "S ''Continue'' \<noteq> []" by (simp add: S_def)
  then have second: "spec_generated_text (empty_then_answers (S ''gemini-2.0-flash-lite'')) = Some (S ''Continue'')"
    by (simp add: empty_then_answers_simps text_reply_def spec_generated_text_simps)
  show ?thesis
    using C3_empty_reply_ends_the_search[where req = "post honesty_body" and b = honesty_body
        and rt = "sample_runtime empty_then_answers" and ps = "[]" and cs = "[]"]
      second
    by (simp add: post_simps post_not_options sample_generateContent empty_then_answers_simps
        text_reply_def dashboard_fallback_honesty)
qed

text \<open>
  Claim C4 (a text of more than 150 words is cut to its first 150 words plus an ellipsis,
  a text of at most 150 words is returned unchanged).
  The code counts the pieces of \<^verbatim>\<open>split(/\s+/)\<close>, and white space at the end (or the
  start) of the text adds an empty piece. The text made of the word \<^verbatim>\<open>a\<close> 150 times,
  separated by single spaces and followed by a line feed, has 150 words but 151 pieces:
  the code replaces its line feed by three dots instead of returning it unchanged.
\<close>

theorem C4_trailing_newline_is_truncated:
  "spec_word_count (concat (replicate 149 (S ''a '')) @ S ''a\<newline>'') = 150 \<and>
   length (split_ws (concat (replicate 149 (S ''a '')) @ S ''a\<newline>'')) = 151 \<and>
   enforce_word_limit (concat (replicate 149 (S ''a '')) @ S ''a\<newline>'')
     = concat (replicate 149 (S ''a '')) @ S ''a...'' \<and>
   enforce_word_limit (concat (replicate 149 (S ''a '')) @ S ''a\<newline>'')
     \<noteq> concat (replicate 149 (S ''a '')) @ S ''a\<newline>''"
proof -
  let ?t = "concat (replicate 149 (S ''a '')) @ S ''a\<newline>''"
  have sp: "split_ws ?t = replicate 149 (S ''a'') @ [S ''a'', []]" by (rule split_ws_150_words)
  have ne: "S ''a'' \<noteq> []" by (simp add: S_def)
  have c: "spec_word_count ?t = 150"
    unfolding spec_word_count_def sp using ne by simp
  have l: "length (split_ws ?t) = 151" unfolding sp by simp
  have tk: "take 150 (split_ws ?t) = replicate 149 (S ''a'') @ [S ''a'']" unfolding sp by simp
  have "enforce_word_limit ?t = join (S '' '') (take 150 (split_ws ?t)) @ S ''...''"
    by (rule enforce_word_limit_truncated) (simp add: l)
  also have "\<dots> = concat (replicate 149 (S ''a'' @ S '' '')) @ S ''a'' @ S ''...''"
    unfolding tk join_replicate_snoc by simp
  also have "\<dots> = concat (replicate 149 (S ''a '')) @ S ''a...''" by (simp add: S_def)
  finally have e: "enforce_word_limit ?t = concat (replicate 149 (S ''a '')) @ S ''a...''" .
  have d: "S ''a...'' \<noteq> S ''a\<newline>''" by (simp add: S_def)
  show ?thesis using c l e d by simp
qed

text \<open>
  Claim C5 (when all candidates fail, the handler sends the fallback text with
  \<^verbatim>\<open>model: "fallback"\<close>). The code sends \<^verbatim>\<open>fallback\<close> only when no attempt reached
  \<^verbatim>\<open>break\<close>. For every valid request on which the attempts on the first four models
  throw and the last model replies with an empty text (dashboard endpoint) or with a part
  that carries no text (summary endpoint), all five candidates have failed in the sense of
  the specification, and the handler sends status 200, \<^verbatim>\<open>success: true\<close> and the
  deterministic fallback text, but \<^verbatim>\<open>model: "gemini-pro"\<close>. It is the defect of an
  empty reply, seen from the response on exhaustion.
\<close>

theorem C5_empty_last_reply_is_not_fallback:
  "(httpMethod req \<noteq> S ''OPTIONS'' \<and> body req = Object b \<and>
    (\<forall>m\<in>set (butlast modelNames).
        isl (try_dashboard_model (generateContent rt m (dashboard_prompt rt b)))) \<and>
    generateContent rt (S ''gemini-pro'') (dashboard_prompt rt b)
      = Resolves (Result (Some (Candidate (Some (Content (Part (Some []) # ps))) # cs))) \<longrightarrow>
      (\<forall>m\<in>set modelNames. spec_generated_text (generateContent rt m (dashboard_prompt rt b)) = None) \<and>
      fst (getDashboardPrompt rt req) =
        Response 200 (Prompt (dashboard_fallback b) (S ''gemini-pro'') True))
   \<and> (httpMethod req' \<noteq> S ''OPTIONS'' \<and> body req' = Object b' \<and>
      analyses b' = IsArray as \<and> summaryVirtues b' = IsArray vs \<and>
      (\<forall>m\<in>set (butlast modelNames).
          isl (try_summary_model (generateContent rt' m (summary_prompt as vs)))) \<and>
      generateContent rt' (S ''gemini-pro'') (summary_prompt as vs)
        = Resolves (Result (Some (Candidate (Some (Content (Part None # ps'))) # cs'))) \<longrightarrow>
      (\<forall>m\<in>set modelNames. spec_generated_text (generateContent rt' m (summary_prompt as vs)) = None) \<and>
      fst (getSummaryAnalysis rt' req') =
        Response 200 (Summary (summary_fallback vs) (S ''gemini-pro'') True))"
proof (intro conjI impI)
  assume a: "httpMethod req \<noteq> S ''OPTIONS'' \<and> body req = Object b \<and>
    (\<forall>m\<in>set (butlast modelNames).
        isl (try_dashboard_model (generateContent rt m (dashboard_prompt rt b)))) \<and>
    generateContent rt (S ''gemini-pro'') (dashboard_prompt rt b)
      = Resolves (Result (Some (Candidate (Some (Content (Part (Some []) # ps))) # cs)))"
  then have throws: "\<forall>m\<in>set (butlast modelNames).
        isl (try_dashboard_model (generateContent rt m (dashboard_prompt rt b)))"
    and last: "generateContent rt (S ''gemini-pro'') (dashboard_prompt rt b)
      = Resolves (Result (Some (Candidate (Some (Content (Part (Some []) # ps))) # cs)))"
    by simp_all
  show "\<forall>m\<in>set modelNames. spec_generated_text (generateContent rt m (dashboard_prompt rt b)) = None"
  proof
    fix m assume "m \<in> set modelNames"
    then have "m \<in> set (butlast modelNames) \<or> m = S ''gemini-pro''"
      by (subst (asm) modelNames_butlast(2)) auto
    then show "spec_generated_text (generateContent rt m (dashboard_prompt rt b)) = None"
      using throws last by (auto simp: spec_generated_text_throws spec_generated_text_simps)
  qed
  show "fst (getDashboardPrompt rt req) =
        Response 200 (Prompt (dashboard_fallback b) (S ''gemini-pro'') True)"
    using a dashboard_last_reply_empty[of req b rt ps cs] by simp
next
  assume a: "httpMethod req' \<noteq> S ''OPTIONS'' \<and> body req' = Object b' \<and>
      analyses b' = IsArray as \<and> summaryVirtues b' = IsArray vs \<and>
      (\<forall>m\<in>set (butlast modelNames).
          isl (try_summary_model (generateContent rt' m (summary_prompt as vs)))) \<and>
      generateContent rt' (S ''gemini-pro'') (summary_prompt as vs)
        = Resolves (Result (Some (Candidate (Some (Content (Part None # ps'))) # cs')))"
  then have throws: "\<forall>m\<in>set (butlast modelNames).
          isl (try_summary_model (generateContent rt' m (summary_prompt as vs)))"
    and last: "generateContent rt' (S ''gemini-pro'') (summary_prompt as vs)
        = Resolves (Result (Some (Candidate (Some (Content (Part None # ps'))) # cs')))"
    by simp_all
  show "\<forall>m\<in>set modelNames. spec_generated_text (generateContent rt' m (summary_prompt as vs)) = None"
  proof
    fix m assume "m \<in> set modelNames"
    then have "m \<in> set (butlast modelNames) \<or> m = S ''gemini-pro''"
      by (subst (asm) modelNames_butlast(2)) auto
    then show "spec_generated_text (generateContent rt' m (summary_prompt as vs)) = None"
      using throws last by (auto simp: spec_generated_text_throws spec_generated_text_simps)
  qed
  show "fst (getSummaryAnalysis rt' req') =
        Response 200 (Summary (summary_fallback vs) (S ''gemini-pro'') True)"
    using a summary_last_reply_textless[of req' b' as vs rt' ps' cs'] by simp
qed

text \<open>
  On concrete requests: the dashboard fallback names Honesty and the Dismantling stage,
  the summary fallback names Honesty and Patience, both under the name \<^verbatim>\<open>gemini-pro\<close>.
\<close>

theorem C5_empty_last_reply_is_not_fallback_witness:
  "fst (getDashboardPrompt (sample_runtime (only_last_replies (text_reply []))) (post honesty_body)) =
     Response 200
       (Prompt (S ''Welcome to your virtue development journey! Start by working on Honesty in the Dismantling stage to begin recognizing character defects. Click the stage buttons to begin your reflection.'')
          (S ''gemini-pro'') True)
   \<and> fst (getSummaryAnalysis (sample_runtime (only_last_replies textless_reply))
          (post \<lparr>analyses = IsArray [], summaryVirtues = IsArray [honesty, patience]\<rparr>)) =
     Response 200
       (Summary (S ''A full summary could not be generated at this time. Based on the data, the primary areas for development appear to be Honesty and Patience. Focusing on the root causes of challenges in these areas is a recommended next step.'')
          (S ''gemini-pro'') True)"
  using C5_empty_last_reply_is_not_fallback[where req = "post honesty_body" and b = honesty_body
      and rt = "sample_runtime (only_last_replies (text_reply []))" and ps = "[]" and cs = "[]"
      and req' = "post \<lparr>analyses = IsArray [], summaryVirtues = IsArray [honesty, patience]\<rparr>"
      and b' = "\<lparr>analyses = IsArray [], summaryVirtues = IsArray [honesty, patience]\<rparr>"
      and as = "[]" and vs = "[honesty, patience]"
      and rt' = "sample_runtime (only_last_replies textless_reply)" and ps' = "[]" and cs' = "[]"]
    only_last_replies_throw
  by (simp add: post_simps post_not_options sample_generateContent only_last_replies_simps
      text_reply_def textless_reply_def dashboard_fallback_honesty summary_fallback_two)

text \<open>
  Claim C6 (when every candidate fails, the error surfaced is the error of the last
  attempt). The code surfaces the error of the last attempt that threw. For every request
  on which the attempts on the first four models throw and the last model replies with an
  empty text, the console holds the attempt and the failure of each of the four, then the
  attempt on \<^verbatim>\<open>gemini-pro\<close> and its success line, and ends with the "All models failed"
  line carrying the error of the attempt on \<^verbatim>\<open>gemini-1.5-flash\<close>, the fourth model: the
  last attempt failed without an error being recorded for it. It is the defect of an
  empty reply, seen from the console.
\<close>

theorem C6_surfaced_error_is_not_the_last_attempt:
  assumes "httpMethod req \<noteq> S ''OPTIONS''" and "body req = Object b"
    and "\<forall>m\<in>set (butlast modelNames).
           isl (try_dashboard_model (generateContent rt m (dashboard_prompt rt b)))"
    and "generateContent rt (S ''gemini-pro'') (dashboard_prompt rt b)
           = Resolves (Result (Some (Candidate (Some (Content (Part (Some []) # ps))) # cs)))"
  shows "snd (getDashboardPrompt rt req) =
           concat (map (\<lambda>m. [Trying m,
                      Failed m (projl (try_dashboard_model (generateContent rt m (dashboard_prompt rt b))))])
                    (butlast modelNames))
           @ [Trying (S ''gemini-pro''), Succeeded (S ''gemini-pro''),
              AllModelsFailed
                (Some (projl (try_dashboard_model
                   (generateContent rt (S ''gemini-1.5-flash'') (dashboard_prompt rt b)))))]"
  using dashboard_last_reply_empty[OF assms] by simp

text \<open>A service that fails with a different message for each of the first four models.\<close>

theorem C6_surfaced_error_is_not_the_last_attempt_witness:
  "snd (getDashboardPrompt (sample_runtime (only_last_replies (text_reply []))) (post honesty_body)) =
     [Trying (S ''gemini-2.5-flash-lite''),
      Failed (S ''gemini-2.5-flash-lite'') (ServiceError (S ''no quota for gemini-2.5-flash-lite'')),
      Trying (S ''gemini-2.0-flash-lite''),
      Failed (S ''gemini-2.0-flash-lite'') (ServiceError (S ''no quota for gemini-2.0-flash-lite'')),
      Trying (S ''gemini-1.5-flash-lite''),
      Failed (S ''gemini-1.5-flash-lite'') (ServiceError (S ''no quota for gemini-1.5-flash-lite'')),
      Trying (S ''gemini-1.5-flash''),
      Failed (S ''gemini-1.5-flash'') (ServiceError (S ''no quota for gemini-1.5-flash'')),
      Trying (S ''gemini-pro''), Succeeded (S ''gemini-pro''),
      AllModelsFailed (Some (ServiceError (S ''no quota for gemini-1.5-flash'')))]"
  using C6_surfaced_error_is_not_the_last_attempt[where req = "post honesty_body" and b = honesty_body
      and rt = "sample_runtime (only_last_replies (text_reply []))" and ps = "[]" and cs = "[]"]
    only_last_replies_throw(1)[of "text_reply []"]
  by (simp add: post_simps post_not_options sample_generateContent only_last_replies_simps
      text_reply_def modelNames_butlast(1) try_rejects)




text \<open>
  Claim C8 (validation of the summary request). When the body is falsy, is not an
  object, or lacks an \<^verbatim>\<open>analyses\<close> array or a \<^verbatim>\<open>prioritizedVirtues\<close> array, the summary
  handler sends status 400 with its error message and writes nothing to the console: no
  model has been invoked.
\<close>

theorem C8_invalid_summary_body_is_rejected:
  assumes "httpMethod req \<noteq> S ''OPTIONS''"
    and "body req = Falsy \<or> body req = NonObject \<or>
         (\<exists>b. body req = Object b \<and>
              ((\<forall>xs. analyses b \<noteq> IsArray xs) \<or> (\<forall>vs. summaryVirtues b \<noteq> IsArray vs)))"
  shows "getSummaryAnalysis rt req =
           (Response 400
              (Error (S ''Invalid request body: Expected analyses and prioritizedVirtues arrays.'')), [])
         \<and> invoked (snd (getSummaryAnalysis rt req)) = []"
proof -
  have "getSummaryAnalysis rt req = (Response 400 (Error invalid_summary_body), [])"
    using assms
    by (auto simp: getSummaryAnalysis_def split: req_body.splits array_field.splits)
  then show ?thesis by (simp add: invalid_summary_body_def)
qed

text \<open>A body whose \<^verbatim>\<open>analyses\<close> is not an array, with a service that would answer.\<close>

theorem C8_invalid_summary_body_is_rejected_witness:
  "getSummaryAnalysis (sample_runtime (\<lambda>modelName. text_reply (S ''Continue'')))
       (post \<lparr>analyses = NotArray, summaryVirtues = IsArray [honesty]\<rparr>) =
     (Response 400
        (Error (S ''Invalid request body: Expected analyses and prioritizedVirtues arrays.'')), [])
   \<and> invoked (snd (getSummaryAnalysis (sample_runtime (\<lambda>modelName. text_reply (S ''Continue'')))
        (post \<lparr>analyses = NotArray, summaryVirtues = IsArray [honesty]\<rparr>))) = []"
  using C8_invalid_summary_body_is_rejected[where
      req = "post \<lparr>analyses = NotArray, summaryVirtues = IsArray [honesty]\<rparr>"
      and rt = "sample_runtime (\<lambda>modelName. text_reply (S ''Continue''))"]
  by (simp add: post_simps post_not_options)

text \<open>
  Claim C9 (no truncation on the summary endpoint). When the attempts before model
  \<open>i\<close> fail and model \<open>i\<close> answers with a non-empty text, the summary handler sends
  exactly that text, under that model's name, whatever its number of words.
\<close>

theorem C9_summary_text_is_not_truncated:
  assumes "httpMethod req \<noteq> S ''OPTIONS''" and "body req = Object b"
    and "analyses b = IsArray as" and "summaryVirtues b = IsArray vs"
    and "i < length modelNames"
    and "\<forall>j<i. isl (try_summary_model (generateContent rt (modelNames ! j) (summary_prompt as vs)))"
    and "generateContent rt (modelNames ! i) (summary_prompt as vs) =
           Resolves (Result (Some (Candidate (Some (Content (Part (Some t) # ps))) # cs)))"
    and "t \<noteq> []"
  shows "fst (getSummaryAnalysis rt req) = Response 200 (Summary t (modelNames ! i) True)"
proof -
  let ?att = "\<lambda>modelName. try_summary_model (generateContent rt modelName (summary_prompt as vs))"
  let ?init = "\<lparr>generated = Some ([] :: jsstring), lastError = None, successfulModel = [], console = []\<rparr>"
  have ok: "?att (modelNames ! i) = Inr (Some t)"
    by (simp add: assms(7) try_summary_model_text)
  have split: "modelNames = take i modelNames @ modelNames ! i # drop (Suc i) modelNames"
    using assms(5) by (rule id_take_nth_drop)
  have pre: "\<forall>m\<in>set (take i modelNames). isl (?att m)"
  proof
    fix m assume "m \<in> set (take i modelNames)"
    then obtain j where "j < length (take i modelNames)" "take i modelNames ! j = m"
      by (auto simp: in_set_conv_nth)
    then show "isl (?att m)" using assms(5,6) by auto
  qed
  have gen: "generated (run_models ?att modelNames ?init) = Some t"
    and suc: "successfulModel (run_models ?att modelNames ?init) = modelNames ! i"
    using run_models_first_success[OF pre ok, of "drop (Suc i) modelNames" ?init] split by simp_all
  have name: "model_or_fallback (modelNames ! i) = modelNames ! i"
    using assms(5) by (simp add: modelNames_nonempty_names)
  obtain c cs' where t: "t = c # cs'" using assms(8) by (cases t) auto
  show ?thesis
    using assms(1-4) gen suc name t
    by (simp add: getSummaryAnalysis_def Let_def)
qed

text \<open>A reply of 200 words from the second model is sent whole.\<close>

theorem C9_summary_text_is_not_truncated_witness:
  "spec_word_count (concat (replicate 200 (S ''a ''))) = 200
   \<and> fst (getSummaryAnalysis
            (sample_runtime (second_model_answers (concat (replicate 200 (S ''a '')))))
            (post \<lparr>analyses = IsArray [], summaryVirtues = IsArray [honesty, patience]\<rparr>))
       = Response 200
           (Summary (concat (replicate 200 (S ''a ''))) (S ''gemini-2.0-flash-lite'') True)"
proof -
  let ?t = "concat (replicate 200 (S ''a ''))"
  let ?b = "\<lparr>analyses = IsArray [], summaryVirtues = IsArray [honesty, patience]\<rparr>"
  have ne: "S ''a'' \<noteq> []" "S ''a '' \<noteq> []" by (simp_all add: S_def)
  have wc: "spec_word_count ?t = 200"
    unfolding spec_word_count_def split_ws_200_words using ne by simp
  have t: "?t \<noteq> []" using ne by (simp add: numeral_eq_Suc)
  have nth: "modelNames ! Suc 0 = S ''gemini-2.0-flash-lite''" "modelNames ! 0 = S ''gemini-2.5-flash-lite''"
    by (simp_all add: modelNames_def)
  have "fst (getSummaryAnalysis (sample_runtime (second_model_answers ?t)) (post ?b))
          = Response 200 (Summary ?t (modelNames ! Suc 0) True)"
  proof (rule C9_summary_text_is_not_truncated[where b = ?b and as = "[]"
        and vs = "[honesty, patience]" and ps = "[]" and cs = "[]"])
    show "httpMethod (post ?b) \<noteq> S ''OPTIONS''" by (simp add: post_simps post_not_options)
    show "body (post ?b) = Object ?b" by (simp add: post_simps)
    show "analyses ?b = IsArray []" by simp
    show "summaryVirtues ?b = IsArray [honesty, patience]" by simp
    show "Suc 0 < length modelNames" by (simp add: modelNames_def)
    show "\<forall>j<Suc 0. isl (try_summary_model (generateContent (sample_runtime (second_model_answers ?t))
            (modelNames ! j) (summary_prompt [] [honesty, patience])))"
      by (simp add: sample_generateContent nth second_model_answers_simps try_rejects)
    show "generateContent (sample_runtime (second_model_answers ?t)) (modelNames ! Suc 0)
            (summary_prompt [] [honesty, patience])
          = Resolves (Result (Some [Candidate (Some (Content [Part (Some ?t)]))]))"
      by (simp add: sample_generateContent nth second_model_answers_simps text_reply_def)
    show "?t \<noteq> []" by (rule t)
  qed
  then show ?thesis using wc by (simp add: nth)
qed

text \<open>
  Claim C10 (defaults of a progress line). A key whose stage token is neither
  \<^verbatim>\<open>1\<close> nor \<^verbatim>\<open>2\<close> (any other token, or none when the key has no hyphen) is rendered
  with the stage name Practicing; a key whose identifier token equals the identifier of no
  entry of the virtue list (or when there is no list) is rendered with the name Unknown.
\<close>

theorem C10_default_stage_and_unknown_virtue:
  "(key_stage key \<noteq> Some (S ''1'') \<and> key_stage key \<noteq> Some (S ''2'') \<longrightarrow>
      progress_line rt pv (key, status) =
        or_else (Option.bind (find_virtue rt pv (key_virtueId key)) virtue) (S ''Unknown'') @
        S '' - Practicing: '' @ status)
   \<and> ((\<forall>vs. pv = Some vs \<longrightarrow> (\<forall>v\<in>set vs. \<not> looseEquals rt (virtueId v) (key_virtueId key))) \<longrightarrow>
      progress_line rt pv (key, status) =
        S ''Unknown - '' @ stageName (key_stage key) @ S '': '' @ status)"
proof (intro conjI impI)
  assume "key_stage key \<noteq> Some (S ''1'') \<and> key_stage key \<noteq> Some (S ''2'')"
  then have "stageName (key_stage key) = S ''Practicing''" by (simp add: stageName_def)
  then show "progress_line rt pv (key, status) =
        or_else (Option.bind (find_virtue rt pv (key_virtueId key)) virtue) (S ''Unknown'') @
        S '' - Practicing: '' @ status"
    by (simp add: progress_line_def stage_label_simps)
next
  assume n: "\<forall>vs. pv = Some vs \<longrightarrow> (\<forall>v\<in>set vs. \<not> looseEquals rt (virtueId v) (key_virtueId key))"
  have "find_virtue rt pv (key_virtueId key) = None"
  proof (cases pv)
    case None
    then show ?thesis by (simp add: find_virtue_def)
  next
    case (Some vs)
    then show ?thesis using n by (simp add: find_virtue_def find_None_iff)
  qed
  then show "progress_line rt pv (key, status) =
        S ''Unknown - '' @ stageName (key_stage key) @ S '': '' @ status"
    by (simp add: progress_line_def or_else_def stage_label_simps)
qed

text \<open>The key \<^verbatim>\<open>7-9\<close> (no such virtue, no such stage) and the key \<^verbatim>\<open>3\<close> (no stage).\<close>

theorem C10_default_stage_and_unknown_virtue_witness:
  "progress_line (sample_runtime failing_service) (Some [honesty, patience]) (S ''7-9'', S ''started'')
     = S ''Unknown - Practicing: started''
   \<and> progress_line (sample_runtime failing_service) (Some [honesty, patience]) (S ''3'', S ''started'')
     = S ''Honesty - Practicing: started''"
proof -
  note odd = C10_default_stage_and_unknown_virtue[of "S ''7-9''" "sample_runtime failing_service"
      "Some [honesty, patience]" "S ''started''"]
  note bare = C10_default_stage_and_unknown_virtue[of "S ''3''" "sample_runtime failing_service"
      "Some [honesty, patience]" "S ''started''"]
  have k: "key_stage (S ''7-9'') = Some (S ''9'')" "key_virtueId (S ''7-9'') = S ''7''"
    "key_stage (S ''3'') = None" "key_virtueId (S ''3'') = S ''3''"
    by (simp_all add: key_stage_def key_virtueId_def S_def)
  have ne: "S ''9'' \<noteq> S ''1''" "S ''9'' \<noteq> S ''2''" by (simp_all add: S_def)
  have ids: "S ''3'' \<noteq> S ''7''" "S ''12'' \<noteq> S ''7''" by (simp_all add: S_def)
  have nomatch: "\<forall>vs. Some [honesty, patience] = Some vs \<longrightarrow>
      (\<forall>v\<in>set vs. \<not> looseEquals (sample_runtime failing_service) (virtueId v) (key_virtueId (S ''7-9'')))"
    by (simp add: k sample_looseEquals honesty_def patience_def ids)
  have st: "stageName (key_stage (S ''7-9'')) = S ''Practicing''"
    using ne by (simp add: k stageName_def)
  have lines: "S ''Unknown - '' @ S ''Practicing'' @ S '': '' @ S ''started'' = S ''Unknown - Practicing: started''"
    "S ''Honesty'' @ S '' - Practicing: '' @ S ''started'' = S ''Honesty - Practicing: started''"
    by (simp_all add: S_def)
  have one: "progress_line (sample_runtime failing_service) (Some [honesty, patience]) (S ''7-9'', S ''started'')
     = S ''Unknown - Practicing: started''"
    using odd[THEN conjunct2, THEN mp, OF nomatch] by (simp only: st lines)
  have bare_stage: "key_stage (S ''3'') \<noteq> Some (S ''1'') \<and> key_stage (S ''3'') \<noteq> Some (S ''2'')"
    by (simp add: k)
  have two: "progress_line (sample_runtime failing_service) (Some [honesty, patience]) (S ''3'', S ''started'')
     = S ''Honesty - Practicing: started''"
    using bare[THEN conjunct1, THEN mp, OF bare_stage]
    by (simp only: k find_virtue_sample honesty_name lines)
  show ?thesis using one two by simp
qed

end
